theory Spec2Isabelle
  imports Complex_Main "HOL-Library.Log_Nat"
begin

section \<open>The calculator module \<^verbatim>\<open>api/calculate.py\<close>\<close>

text \<open>
  The module parses an expression with Python's \<^verbatim>\<open>ast.parse\<close>, walks the tree against
  the whitelist \<^verbatim>\<open>ALLOWED_NODES\<close>, evaluates it with \<^verbatim>\<open>eval\<close> in a namespace that holds
  only \<^verbatim>\<open>SAFE_FUNCTIONS\<close> and \<^verbatim>\<open>SAFE_CONSTANTS\<close>, and coerces the result with
  \<^verbatim>\<open>float\<close>. The module's own functions are translated line by line. What the module
  calls in the Python runtime is modelled as follows:
  \<^item> integers are unbounded (\<open>int\<close>) and their arithmetic is exact;
  \<^item> a float is an IEEE 754 binary64 value, given by its exact real value or as an
    infinity or NaN; the operations that IEEE 754 requires to be correctly rounded
    (addition, subtraction, multiplication, division, square root, conversion from an
    integer) are the exact result rounded to nearest, ties to even;
  \<^item> the parser, the C library's \<^verbatim>\<open>pow\<close>, the float remainder, complex arithmetic,
    operators on strings and sequences, the conversions from strings and the
    C-implemented callables of the registry other than \<^verbatim>\<open>math.sqrt\<close>, \<^verbatim>\<open>math.pow\<close> and
    \<^verbatim>\<open>math.factorial\<close> are fields of a record \<open>runtime\<close>, over which every theorem is
    universally quantified;
  \<^item> \<^verbatim>\<open>compile\<close> raises on the two errors of keyword arguments that the parser lets
    through and replaces the name \<^verbatim>\<open>__debug__\<close> by the interpreter's constant; it changes
    nothing else of what a tree evaluates to;
  \<^item> resource exhaustion (\<^verbatim>\<open>MemoryError\<close>, \<^verbatim>\<open>RecursionError\<close>, a computation that does not
    end in reasonable time) is not modelled.
  The two zeros of binary64 are identified, as Python's \<^verbatim>\<open>==\<close> does.
\<close>

subsection \<open>Floats\<close>

datatype pyfloat = Fin real | PInf | NInf | NaN

definition pow2 :: "int \<Rightarrow> real" where
  "pow2 e = (if 0 \<le> e then 2 ^ nat e else 1 / 2 ^ nat (- e))"

definition round_half_even :: "real \<Rightarrow> int" where
  "round_half_even x =
     (let f = \<lfloor>x\<rfloor>; d = x - of_int f
      in if d < 1 / 2 then f else if 1 / 2 < d then f + 1
         else if even f then f else f + 1)"

text \<open>For \<open>0 < x\<close>, \<open>ilog2 x\<close> is the \<open>e\<close> with \<open>2 ^ e \<le> x < 2 ^ (e + 1)\<close>.\<close>

definition ilog2 :: "real \<Rightarrow> int" where
  "ilog2 x = (if 1 \<le> x then bitlen \<lfloor>x\<rfloor> - 1 else - bitlen (\<lceil>1 / x\<rceil> - 1))"

text \<open>
  Rounding to binary64: 53 significant bits, the least exponent of a unit in the last
  place is \<open>-1074\<close>, and a rounded magnitude of \<open>2 ^ 1024\<close> or more is an infinity.
\<close>

definition round_double :: "real \<Rightarrow> pyfloat" where
  "round_double x =
     (if x = 0 then Fin 0
      else let e = max (ilog2 \<bar>x\<bar> - 52) (- 1074);
               r = of_int (round_half_even (x / pow2 e)) * pow2 e
           in if 2 ^ 1024 \<le> \<bar>r\<bar> then (if 0 < x then PInf else NInf) else Fin r)"

fun fneg :: "pyfloat \<Rightarrow> pyfloat" where
  "fneg (Fin a) = Fin (- a)"
| "fneg PInf = NInf"
| "fneg NInf = PInf"
| "fneg NaN = NaN"

fun fadd :: "pyfloat \<Rightarrow> pyfloat \<Rightarrow> pyfloat" where
  "fadd NaN _ = NaN"
| "fadd _ NaN = NaN"
| "fadd PInf NInf = NaN"
| "fadd NInf PInf = NaN"
| "fadd PInf _ = PInf"
| "fadd _ PInf = PInf"
| "fadd NInf _ = NInf"
| "fadd _ NInf = NInf"
| "fadd (Fin a) (Fin b) = round_double (a + b)"

definition fsub :: "pyfloat \<Rightarrow> pyfloat \<Rightarrow> pyfloat" where
  "fsub a b = fadd a (fneg b)"

text \<open>\<open>fsgn\<close> is \<open>1\<close>, \<open>-1\<close> or \<open>0\<close> (for zero and NaN).\<close>

fun fsgn :: "pyfloat \<Rightarrow> int" where
  "fsgn (Fin a) = (if 0 < a then 1 else if a < 0 then - 1 else 0)"
| "fsgn PInf = 1"
| "fsgn NInf = - 1"
| "fsgn NaN = 0"

definition signed_inf :: "int \<Rightarrow> pyfloat" where
  "signed_inf s = (if 0 < s then PInf else if s < 0 then NInf else NaN)"

fun is_finite :: "pyfloat \<Rightarrow> bool" where
  "is_finite (Fin _) = True"
| "is_finite _ = False"

fun fmul :: "pyfloat \<Rightarrow> pyfloat \<Rightarrow> pyfloat" where
  "fmul NaN _ = NaN"
| "fmul _ NaN = NaN"
| "fmul (Fin a) (Fin b) = round_double (a * b)"
| "fmul a b = signed_inf (fsgn a * fsgn b)"

text \<open>\<open>fdiv\<close> is only called with a divisor other than zero.\<close>

fun fdiv :: "pyfloat \<Rightarrow> pyfloat \<Rightarrow> pyfloat" where
  "fdiv NaN _ = NaN"
| "fdiv _ NaN = NaN"
| "fdiv (Fin a) (Fin b) = round_double (a / b)"
| "fdiv (Fin a) _ = Fin 0"
| "fdiv a (Fin b) = signed_inf (fsgn a * fsgn (Fin b))"
| "fdiv _ _ = NaN"

subsection \<open>Exceptions and values\<close>

text \<open>
  The exception classes that can arise, each with its message. \<open>EvaluationError\<close> is the
  module's own class, a subclass of \<^verbatim>\<open>ValueError\<close>; \<open>OtherException\<close> stands for every other
  subclass of \<^verbatim>\<open>Exception\<close>.
\<close>

datatype pyexc =
    EvaluationError string
  | SyntaxError string
  | ZeroDivisionError string
  | ValueError string
  | OverflowError string
  | TypeError string
  | NameError string
  | OtherException string

text \<open>
  The callables of the registry: \<open>Extern\<close> names a C-implemented function of the
  \<^verbatim>\<open>math\<close> module or a builtin; \<open>F_factorial\<close> is the module's \<^verbatim>\<open>_factorial\<close>; \<open>L_cbrt\<close> is
  \<^verbatim>\<open>lambda x: math.pow(x, 1 / 3)\<close>; \<open>L_compose f g\<close> is \<^verbatim>\<open>lambda x: f(g(x))\<close>.
\<close>

datatype callable =
    Extern string
  | F_factorial
  | L_cbrt
  | L_compose string string

datatype pyval =
    VInt int
  | VBool bool
  | VFloat pyfloat
  | VComplex pyfloat pyfloat
  | VStr string
  | VBytes string
  | VNone
  | VEllipsis
  | VList "pyval list"
  | VTuple "pyval list"
  | VDict "(pyval \<times> pyval) list"
  | VFunc callable

subsection \<open>Syntax trees\<close>

text \<open>
  The trees that \<^verbatim>\<open>ast.parse(expression, mode="eval")\<close> returns (Python 3.8 and later,
  where every literal is a \<^verbatim>\<open>Constant\<close>). In this mode every \<^verbatim>\<open>Name\<close>, \<^verbatim>\<open>List\<close> and
  \<^verbatim>\<open>Tuple\<close> outside a node of another class has the context \<^verbatim>\<open>Load\<close>, which is
  therefore not a field here. An expression node of a class outside \<^verbatim>\<open>ALLOWED_NODES\<close>
  is \<open>Other\<close>, with its class and its sub-expressions: validation raises at such a
  node before it looks at any child, and nothing else ever inspects it.
\<close>

datatype operator =
  Add | Sub | Mult | MatMult | Div | Mod | Pow_op | LShift | RShift
  | BitOr | BitXor | BitAnd | FloorDiv

datatype unaryop = Invert | Not_op | UAdd | USub

datatype constant_value =
    CInt int
  | CFloat pyfloat
  | CImag pyfloat
  | CStr string
  | CBytes string
  | CBool bool
  | CNone
  | CEllipsis

datatype expr_class =
  BoolOp | NamedExpr | Lambda | IfExp | Dict | Set_expr | ListComp | SetComp | DictComp
  | GeneratorExp | Await | Yield | YieldFrom | Compare | FormattedValue | JoinedStr
  | Attribute | Subscript | Starred | Slice

text \<open>A keyword argument \<^verbatim>\<open>k=v\<close> is \<open>(Some k, v)\<close>, and \<^verbatim>\<open>**v\<close> is \<open>(None, v)\<close>.\<close>

datatype expr =
    BinOp expr operator expr
  | UnaryOp unaryop expr
  | Call expr "expr list" "(string option \<times> expr) list"
  | Constant constant_value
  | Name string
  | List_expr "expr list"
  | Tuple_expr "expr list"
  | Other expr_class "expr list"

datatype tree = Expression expr

text \<open>
  The generic view that \<^verbatim>\<open>_validate_node\<close> has of a tree: the name of the node's class
  and the nodes that \<^verbatim>\<open>ast.iter_child_nodes\<close> yields, in the order of the fields.
\<close>

datatype ast = AST string "ast list"

fun operator_name :: "operator \<Rightarrow> string" where
  "operator_name Add = ''Add''"
| "operator_name Sub = ''Sub''"
| "operator_name Mult = ''Mult''"
| "operator_name MatMult = ''MatMult''"
| "operator_name Div = ''Div''"
| "operator_name Mod = ''Mod''"
| "operator_name Pow_op = ''Pow''"
| "operator_name LShift = ''LShift''"
| "operator_name RShift = ''RShift''"
| "operator_name BitOr = ''BitOr''"
| "operator_name BitXor = ''BitXor''"
| "operator_name BitAnd = ''BitAnd''"
| "operator_name FloorDiv = ''FloorDiv''"

fun unaryop_name :: "unaryop \<Rightarrow> string" where
  "unaryop_name Invert = ''Invert''"
| "unaryop_name Not_op = ''Not''"
| "unaryop_name UAdd = ''UAdd''"
| "unaryop_name USub = ''USub''"

fun expr_class_name :: "expr_class \<Rightarrow> string" where
  "expr_class_name BoolOp = ''BoolOp''"
| "expr_class_name NamedExpr = ''NamedExpr''"
| "expr_class_name Lambda = ''Lambda''"
| "expr_class_name IfExp = ''IfExp''"
| "expr_class_name Dict = ''Dict''"
| "expr_class_name Set_expr = ''Set''"
| "expr_class_name ListComp = ''ListComp''"
| "expr_class_name SetComp = ''SetComp''"
| "expr_class_name DictComp = ''DictComp''"
| "expr_class_name GeneratorExp = ''GeneratorExp''"
| "expr_class_name Await = ''Await''"
| "expr_class_name Yield = ''Yield''"
| "expr_class_name YieldFrom = ''YieldFrom''"
| "expr_class_name Compare = ''Compare''"
| "expr_class_name FormattedValue = ''FormattedValue''"
| "expr_class_name JoinedStr = ''JoinedStr''"
| "expr_class_name Attribute = ''Attribute''"
| "expr_class_name Subscript = ''Subscript''"
| "expr_class_name Starred = ''Starred''"
| "expr_class_name Slice = ''Slice''"

fun node_of_expr :: "expr \<Rightarrow> ast" where
  "node_of_expr (BinOp l op r) =
     AST ''BinOp'' [node_of_expr l, AST (operator_name op) [], node_of_expr r]"
| "node_of_expr (UnaryOp op e) =
     AST ''UnaryOp'' [AST (unaryop_name op) [], node_of_expr e]"
| "node_of_expr (Call f args keywords) =
     AST ''Call'' (node_of_expr f # map node_of_expr args
       @ map (\<lambda>kw. AST ''keyword'' [node_of_expr (snd kw)]) keywords)"
| "node_of_expr (Constant c) = AST ''Constant'' []"
| "node_of_expr (Name n) = AST ''Name'' [AST ''Load'' []]"
| "node_of_expr (List_expr elts) =
     AST ''List'' (map node_of_expr elts @ [AST ''Load'' []])"
| "node_of_expr (Tuple_expr elts) =
     AST ''Tuple'' (map node_of_expr elts @ [AST ''Load'' []])"
| "node_of_expr (Other c es) = AST (expr_class_name c) (map node_of_expr es)"

fun node_of_tree :: "tree \<Rightarrow> ast" where
  "node_of_tree (Expression body) = AST ''Expression'' [node_of_expr body]"

subsection \<open>The whitelist and its walk\<close>

definition ALLOWED_NODES :: "string list" where
  "ALLOWED_NODES =
     [''Expression'', ''BinOp'', ''UnaryOp'', ''Call'', ''Name'', ''Load'', ''Constant'',
      ''Pow'', ''Add'', ''Sub'', ''Mult'', ''Div'', ''Mod'', ''FloorDiv'', ''USub'', ''UAdd'',
      ''Assign'', ''Store'', ''arguments'', ''keyword'', ''Tuple'', ''List'']"

text \<open>
  \<^verbatim>\<open>_validate_node\<close> (written \<open>u_validate_node\<close>): the node is checked first, then the
  children in order; the first raise ends the walk. \<open>validate_children\<close> is the
  \<^verbatim>\<open>for\<close> loop.
\<close>

fun u_validate_node :: "ast \<Rightarrow> pyexc + unit"
  and validate_children :: "ast list \<Rightarrow> pyexc + unit" where
  "u_validate_node (AST cls children) =
     (if cls \<notin> set ALLOWED_NODES
      then Inl (EvaluationError (''Unsupported expression element: '' @ cls))
      else validate_children children)"
| "validate_children [] = Inr ()"
| "validate_children (child # rest) =
     (case u_validate_node child of
        Inl exc \<Rightarrow> Inl exc
      | Inr _ \<Rightarrow> validate_children rest)"

subsection \<open>The runtime\<close>

text \<open>
  What the module calls and this theory does not define. \<open>ast_parse\<close> is
  \<^verbatim>\<open>ast.parse(_, mode="eval")\<close>; \<open>libm_pow\<close> is the C library's \<^verbatim>\<open>pow\<close>; \<open>float_rem\<close> and
  \<open>float_floor_div\<close> are \<^verbatim>\<open>%\<close> and \<^verbatim>\<open>//\<close> on floats with a divisor other than zero;
  \<open>other_binop\<close> and \<open>other_unaryop\<close> are the operators on operands that are not all
  \<^verbatim>\<open>int\<close>, \<^verbatim>\<open>bool\<close> or \<^verbatim>\<open>float\<close>, and the operators outside the whitelist; \<open>other_expr\<close>
  evaluates a node of a class outside the whitelist and \<open>other_compile\<close> compiles
  one; \<open>extern_call\<close> calls a
  C-implemented callable by name; \<open>float_of_str\<close> and \<open>int_of_str\<close> are \<^verbatim>\<open>float\<close> and
  \<^verbatim>\<open>int\<close> on a string; \<open>debug_flag\<close> is the constant \<^verbatim>\<open>__debug__\<close> of the interpreter,
  \<^verbatim>\<open>True\<close> unless it was started with \<^verbatim>\<open>-O\<close>.
\<close>

record runtime =
  ast_parse :: "string \<Rightarrow> pyexc + tree"
  libm_pow :: "pyfloat \<Rightarrow> pyfloat \<Rightarrow> pyfloat"
  float_rem :: "pyfloat \<Rightarrow> pyfloat \<Rightarrow> pyfloat"
  float_floor_div :: "pyfloat \<Rightarrow> pyfloat \<Rightarrow> pyfloat"
  other_binop :: "operator \<Rightarrow> pyval \<Rightarrow> pyval \<Rightarrow> pyexc + pyval"
  other_unaryop :: "unaryop \<Rightarrow> pyval \<Rightarrow> pyexc + pyval"
  other_expr :: "expr_class \<Rightarrow> expr list \<Rightarrow> pyexc + pyval"
  other_compile :: "expr_class \<Rightarrow> expr list \<Rightarrow> pyexc option"
  extern_call :: "string \<Rightarrow> pyval list \<Rightarrow> (string \<times> pyval) list \<Rightarrow> pyexc + pyval"
  float_of_str :: "string \<Rightarrow> pyexc + pyfloat"
  int_of_str :: "string \<Rightarrow> pyexc + int"
  debug_flag :: bool

subsection \<open>Conversions\<close>

text \<open>\<^verbatim>\<open>float(n)\<close> for an integer \<open>n\<close>.\<close>

definition float_of_int :: "int \<Rightarrow> pyexc + pyfloat" where
  "float_of_int n =
     (case round_double (of_int n) of
        Fin r \<Rightarrow> Inr (Fin r)
      | _ \<Rightarrow> Inl (OverflowError ''int too large to convert to float''))"

text \<open>A value of class \<^verbatim>\<open>int\<close> or of its subclass \<^verbatim>\<open>bool\<close>, as an integer.\<close>

fun int_like :: "pyval \<Rightarrow> int option" where
  "int_like (VInt n) = Some n"
| "int_like (VBool b) = Some (if b then 1 else 0)"
| "int_like _ = None"

fun is_float :: "pyval \<Rightarrow> bool" where
  "is_float (VFloat _) = True"
| "is_float _ = False"

fun is_complex :: "pyval \<Rightarrow> bool" where
  "is_complex (VComplex _ _) = True"
| "is_complex _ = False"

text \<open>A real number: an \<^verbatim>\<open>int\<close>, a \<^verbatim>\<open>bool\<close> or a \<^verbatim>\<open>float\<close>.\<close>

definition is_real :: "pyval \<Rightarrow> bool" where
  "is_real v = (is_float v \<or> int_like v \<noteq> None)"

text \<open>The conversion of an argument to a C double (\<^verbatim>\<open>PyFloat_AsDouble\<close>).\<close>

fun as_double :: "pyval \<Rightarrow> pyexc + pyfloat" where
  "as_double (VFloat f) = Inr f"
| "as_double (VInt n) = float_of_int n"
| "as_double (VBool b) = Inr (Fin (if b then 1 else 0))"
| "as_double _ = Inl (TypeError ''must be real number'')"

text \<open>The conversion of a number to a complex number, as the complex operators do it.\<close>

fun as_complex :: "pyval \<Rightarrow> pyexc + pyfloat \<times> pyfloat" where
  "as_complex (VComplex re im) = Inr (re, im)"
| "as_complex v = map_sum id (\<lambda>x. (x, Fin 0)) (as_double v)"

definition trunc :: "real \<Rightarrow> int" where
  "trunc r = (if 0 \<le> r then \<lfloor>r\<rfloor> else \<lceil>r\<rceil>)"

text \<open>\<^verbatim>\<open>int(x)\<close>.\<close>

fun py_int :: "runtime \<Rightarrow> pyval \<Rightarrow> pyexc + int" where
  "py_int rt (VInt n) = Inr n"
| "py_int rt (VBool b) = Inr (if b then 1 else 0)"
| "py_int rt (VFloat (Fin r)) = Inr (trunc r)"
| "py_int rt (VFloat NaN) = Inl (ValueError ''cannot convert float NaN to integer'')"
| "py_int rt (VFloat _) = Inl (OverflowError ''cannot convert float infinity to integer'')"
| "py_int rt (VStr s) = int_of_str rt s"
| "py_int rt (VBytes s) = int_of_str rt s"
| "py_int rt _ = Inl (TypeError ''int() argument must be a string or a real number'')"

text \<open>\<^verbatim>\<open>float(x)\<close>.\<close>

fun py_float :: "runtime \<Rightarrow> pyval \<Rightarrow> pyexc + pyfloat" where
  "py_float rt (VFloat f) = Inr f"
| "py_float rt (VInt n) = float_of_int n"
| "py_float rt (VBool b) = Inr (Fin (if b then 1 else 0))"
| "py_float rt (VStr s) = float_of_str rt s"
| "py_float rt (VBytes s) = float_of_str rt s"
| "py_float rt _ = Inl (TypeError ''float() argument must be a string or a real number'')"

text \<open>The truth value of an object, as \<^verbatim>\<open>not\<close> tests it.\<close>

fun py_truth :: "pyval \<Rightarrow> bool" where
  "py_truth (VInt n) = (n \<noteq> 0)"
| "py_truth (VBool b) = b"
| "py_truth (VFloat f) = (f \<noteq> Fin 0)"
| "py_truth (VComplex re im) = (re \<noteq> Fin 0 \<or> im \<noteq> Fin 0)"
| "py_truth (VStr s) = (s \<noteq> [])"
| "py_truth (VBytes s) = (s \<noteq> [])"
| "py_truth VNone = False"
| "py_truth VEllipsis = True"
| "py_truth (VList xs) = (xs \<noteq> [])"
| "py_truth (VTuple xs) = (xs \<noteq> [])"
| "py_truth (VDict kvs) = (kvs \<noteq> [])"
| "py_truth (VFunc _) = True"

subsection \<open>Arithmetic\<close>

text \<open>The order \<^verbatim>\<open><\<close> on floats: false whenever a NaN is involved.\<close>

fun flt :: "pyfloat \<Rightarrow> pyfloat \<Rightarrow> bool" where
  "flt (Fin a) (Fin b) = (a < b)"
| "flt NInf (Fin _) = True"
| "flt NInf PInf = True"
| "flt (Fin _) PInf = True"
| "flt _ _ = False"

fun fabs :: "pyfloat \<Rightarrow> pyfloat" where
  "fabs (Fin a) = Fin \<bar>a\<bar>"
| "fabs NaN = NaN"
| "fabs _ = PInf"

definition is_integer :: "real \<Rightarrow> bool" where
  "is_integer r = (of_int \<lfloor>r\<rfloor> = r)"

fun odd_integer :: "pyfloat \<Rightarrow> bool" where
  "odd_integer (Fin r) = (is_integer r \<and> odd \<lfloor>r\<rfloor>)"
| "odd_integer _ = False"

text \<open>
  \<^verbatim>\<open>float.__pow__\<close> (CPython's \<^verbatim>\<open>float_pow\<close>): the special cases in the order of the C
  code; a negative base with a fractional exponent goes to the complex power; the C
  library is asked for the power of the magnitude, and an infinite result is an
  \<^verbatim>\<open>OverflowError\<close>.
\<close>

definition float_pow :: "runtime \<Rightarrow> pyfloat \<Rightarrow> pyfloat \<Rightarrow> pyexc + pyval" where
  "float_pow rt x y =
     (if y = Fin 0 then Inr (VFloat (Fin 1))
      else if x = NaN then Inr (VFloat NaN)
      else if y = NaN then Inr (VFloat (if x = Fin 1 then Fin 1 else NaN))
      else if \<not> is_finite y then
        Inr (VFloat (if fabs x = Fin 1 then Fin 1
                     else if (y = PInf) = flt (Fin 1) (fabs x) then PInf else Fin 0))
      else if \<not> is_finite x then
        Inr (VFloat (if flt (Fin 0) y then (if odd_integer y then x else PInf) else Fin 0))
      else
        (case (x, y) of
           (Fin a, Fin b) \<Rightarrow>
             if a = 0 then
               (if b < 0
                then Inl (ZeroDivisionError ''0.0 cannot be raised to a negative power'')
                else Inr (VFloat (Fin 0)))
             else if a < 0 \<and> \<not> is_integer b then
               other_binop rt Pow_op (VComplex x (Fin 0)) (VComplex y (Fin 0))
             else if \<bar>a\<bar> = 1 then
               Inr (VFloat (Fin (if a < 0 \<and> odd_integer y then - 1 else 1)))
             else
               (case libm_pow rt (Fin \<bar>a\<bar>) y of
                  Fin r \<Rightarrow> Inr (VFloat (Fin (if a < 0 \<and> odd_integer y then - r else r)))
                | NaN \<Rightarrow> Inl (ValueError ''Numerical argument out of domain'')
                | _ \<Rightarrow> Inl (OverflowError ''Numerical result out of range''))
         | _ \<Rightarrow> Inr (VFloat NaN)))"

text \<open>The operators of the whitelist on two integers.\<close>

fun int_binop :: "runtime \<Rightarrow> operator \<Rightarrow> int \<Rightarrow> int \<Rightarrow> pyexc + pyval" where
  "int_binop rt Add m n = Inr (VInt (m + n))"
| "int_binop rt Sub m n = Inr (VInt (m - n))"
| "int_binop rt Mult m n = Inr (VInt (m * n))"
| "int_binop rt Div m n =
     (if n = 0 then Inl (ZeroDivisionError ''division by zero'')
      else (case round_double (of_int m / of_int n) of
              Fin r \<Rightarrow> Inr (VFloat (Fin r))
            | _ \<Rightarrow> Inl (OverflowError ''integer division result too large for a float'')))"
| "int_binop rt FloorDiv m n =
     (if n = 0 then Inl (ZeroDivisionError ''integer division or modulo by zero'')
      else Inr (VInt (m div n)))"
| "int_binop rt Mod m n =
     (if n = 0 then Inl (ZeroDivisionError ''integer division or modulo by zero'')
      else Inr (VInt (m mod n)))"
| "int_binop rt Pow_op m n =
     (if 0 \<le> n then Inr (VInt (m ^ nat n))
      else (case float_of_int m of
              Inl exc \<Rightarrow> Inl exc
            | Inr x \<Rightarrow>
                (case float_of_int n of
                   Inl exc \<Rightarrow> Inl exc
                 | Inr y \<Rightarrow> float_pow rt x y)))"
| "int_binop rt op m n = other_binop rt op (VInt m) (VInt n)"

text \<open>The operators of the whitelist on two floats.\<close>

fun float_binop :: "runtime \<Rightarrow> operator \<Rightarrow> pyfloat \<Rightarrow> pyfloat \<Rightarrow> pyexc + pyval" where
  "float_binop rt Add x y = Inr (VFloat (fadd x y))"
| "float_binop rt Sub x y = Inr (VFloat (fsub x y))"
| "float_binop rt Mult x y = Inr (VFloat (fmul x y))"
| "float_binop rt Div x y =
     (if y = Fin 0 then Inl (ZeroDivisionError ''float division by zero'')
      else Inr (VFloat (fdiv x y)))"
| "float_binop rt FloorDiv x y =
     (if y = Fin 0 then Inl (ZeroDivisionError ''float floor division by zero'')
      else Inr (VFloat (float_floor_div rt x y)))"
| "float_binop rt Mod x y =
     (if y = Fin 0 then Inl (ZeroDivisionError ''float modulo'')
      else Inr (VFloat (float_rem rt x y)))"
| "float_binop rt Pow_op x y = float_pow rt x y"
| "float_binop rt op x y = other_binop rt op (VFloat x) (VFloat y)"

definition arithmetic_op :: "operator \<Rightarrow> bool" where
  "arithmetic_op op = (op \<in> {Add, Sub, Mult, Div, FloorDiv, Mod, Pow_op})"

text \<open>
  The division of two numbers of which one is complex (CPython's \<^verbatim>\<open>complex_div\<close>): both
  are converted, a divisor with both parts zero raises, and the quotient is the
  runtime's.
\<close>

definition complex_div :: "runtime \<Rightarrow> pyval \<Rightarrow> pyval \<Rightarrow> pyexc + pyval" where
  "complex_div rt a b =
     (case as_complex a of
        Inl exc \<Rightarrow> Inl exc
      | Inr _ \<Rightarrow>
          (case as_complex b of
             Inl exc \<Rightarrow> Inl exc
           | Inr (re, im) \<Rightarrow>
               if re = Fin 0 \<and> im = Fin 0
               then Inl (ZeroDivisionError ''complex division by zero'')
               else other_binop rt Div a b))"

text \<open>
  A binary operator on two values: integer arithmetic when both are \<^verbatim>\<open>int\<close> or
  \<^verbatim>\<open>bool\<close>, float arithmetic when one is a \<^verbatim>\<open>float\<close> and the other a real number (the
  integer is converted first), the complex division when one is complex and the other
  a number, the runtime otherwise.
\<close>

definition py_binop :: "runtime \<Rightarrow> operator \<Rightarrow> pyval \<Rightarrow> pyval \<Rightarrow> pyexc + pyval" where
  "py_binop rt op a b =
     (if \<not> arithmetic_op op then other_binop rt op a b
      else
        (case (int_like a, int_like b) of
           (Some m, Some n) \<Rightarrow> int_binop rt op m n
         | _ \<Rightarrow>
            if is_real a \<and> is_real b then
              (case as_double a of
                 Inl exc \<Rightarrow> Inl exc
               | Inr x \<Rightarrow>
                   (case as_double b of
                      Inl exc \<Rightarrow> Inl exc
                    | Inr y \<Rightarrow> float_binop rt op x y))
            else if op = Div \<and> (is_real a \<or> is_complex a) \<and> (is_real b \<or> is_complex b)
            then complex_div rt a b
            else other_binop rt op a b))"

fun py_unaryop :: "runtime \<Rightarrow> unaryop \<Rightarrow> pyval \<Rightarrow> pyexc + pyval" where
  "py_unaryop rt USub (VInt n) = Inr (VInt (- n))"
| "py_unaryop rt USub (VBool b) = Inr (VInt (if b then - 1 else 0))"
| "py_unaryop rt USub (VFloat f) = Inr (VFloat (fneg f))"
| "py_unaryop rt USub (VComplex re im) = Inr (VComplex (fneg re) (fneg im))"
| "py_unaryop rt USub _ = Inl (TypeError ''bad operand type for unary -'')"
| "py_unaryop rt UAdd (VInt n) = Inr (VInt n)"
| "py_unaryop rt UAdd (VBool b) = Inr (VInt (if b then 1 else 0))"
| "py_unaryop rt UAdd (VFloat f) = Inr (VFloat f)"
| "py_unaryop rt UAdd (VComplex re im) = Inr (VComplex re im)"
| "py_unaryop rt UAdd _ = Inl (TypeError ''bad operand type for unary +'')"
| "py_unaryop rt op v = other_unaryop rt op v"

subsection \<open>The functions of the \<^verbatim>\<open>math\<close> module that the claims are about\<close>

text \<open>
  The C function \<^verbatim>\<open>pow\<close> on finite arguments: C99 (Annex F) fixes a NaN for a negative
  base with a fractional exponent and an infinity for a zero base with a negative
  exponent; the value is the library's otherwise.
\<close>

definition c_pow :: "runtime \<Rightarrow> real \<Rightarrow> real \<Rightarrow> pyfloat" where
  "c_pow rt a b =
     (if a < 0 \<and> \<not> is_integer b then NaN
      else if a = 0 \<and> b < 0 then PInf
      else libm_pow rt (Fin a) (Fin b))"

text \<open>
  \<^verbatim>\<open>math.pow\<close> on two doubles (CPython's \<^verbatim>\<open>math_pow_impl\<close>): the infinities and NaNs
  are dealt with first and never raise; on finite arguments a NaN from the C function is
  a domain error, an infinity a domain error for a zero base and a range error
  otherwise.
\<close>

definition math_pow :: "runtime \<Rightarrow> pyfloat \<Rightarrow> pyfloat \<Rightarrow> pyexc + pyfloat" where
  "math_pow rt x y =
     (case (x, y) of
        (Fin a, Fin b) \<Rightarrow>
          (case c_pow rt a b of
             Fin r \<Rightarrow> Inr (Fin r)
           | NaN \<Rightarrow> Inl (ValueError ''math domain error'')
           | _ \<Rightarrow> if a = 0 then Inl (ValueError ''math domain error'')
                  else Inl (OverflowError ''math range error''))
      | _ \<Rightarrow>
          Inr (if x = NaN then (if y = Fin 0 then Fin 1 else NaN)
               else if y = NaN then (if x = Fin 1 then Fin 1 else NaN)
               else if \<not> is_finite x then
                 (if flt (Fin 0) y then (if odd_integer y then x else PInf)
                  else if y = Fin 0 then Fin 1 else Fin 0)
               else if fabs x = Fin 1 then Fin 1
               else if y = PInf \<and> flt (Fin 1) (fabs x) then PInf
               else if y = NInf \<and> flt (fabs x) (Fin 1) then PInf
               else Fin 0))"

text \<open>\<^verbatim>\<open>math.sqrt\<close> on a double: the correctly rounded root, a domain error below zero.\<close>

fun math_sqrt :: "pyfloat \<Rightarrow> pyexc + pyfloat" where
  "math_sqrt (Fin a) =
     (if a < 0 then Inl (ValueError ''math domain error'') else Inr (round_double (sqrt a)))"
| "math_sqrt NInf = Inl (ValueError ''math domain error'')"
| "math_sqrt PInf = Inr PInf"
| "math_sqrt NaN = Inr NaN"

text \<open>\<^verbatim>\<open>LONG_MAX\<close> of the C compiler, on the usual 64-bit platforms.\<close>

definition LONG_MAX :: int where
  "LONG_MAX = 2 ^ 63 - 1"

text \<open>\<^verbatim>\<open>math.factorial\<close> on an integer.\<close>

definition math_factorial :: "int \<Rightarrow> pyexc + pyval" where
  "math_factorial n =
     (if n < 0 then Inl (ValueError ''factorial() not defined for negative values'')
      else if LONG_MAX < n
      then Inl (OverflowError ''factorial() argument should not exceed 9223372036854775807'')
      else Inr (VInt (fact (nat n))))"

text \<open>
  A call of a C-implemented callable by name: \<^verbatim>\<open>math.sqrt\<close> and \<^verbatim>\<open>math.pow\<close> take
  positional arguments only and convert them to doubles from left to right; every
  other name is the runtime's.
\<close>

definition call_extern ::
  "runtime \<Rightarrow> string \<Rightarrow> pyval list \<Rightarrow> (string \<times> pyval) list \<Rightarrow> pyexc + pyval" where
  "call_extern rt name args kwargs =
     (if name = ''math.sqrt'' then
        (case (args, kwargs) of
           ([v], []) \<Rightarrow>
             (case as_double v of
                Inl exc \<Rightarrow> Inl exc
              | Inr x \<Rightarrow> map_sum id VFloat (math_sqrt x))
         | _ \<Rightarrow> Inl (TypeError ''math.sqrt() takes exactly one argument''))
      else if name = ''math.pow'' then
        (case (args, kwargs) of
           ([v, w], []) \<Rightarrow>
             (case as_double v of
                Inl exc \<Rightarrow> Inl exc
              | Inr x \<Rightarrow>
                  (case as_double w of
                     Inl exc \<Rightarrow> Inl exc
                   | Inr y \<Rightarrow> map_sum id VFloat (math_pow rt x y)))
         | _ \<Rightarrow> Inl (TypeError ''pow expected 2 arguments''))
      else extern_call rt name args kwargs)"

subsection \<open>The registry\<close>

text \<open>\<^verbatim>\<open>int(x) != x\<close> for the integer \<open>i\<close> that \<^verbatim>\<open>int(x)\<close> returned.\<close>

fun py_ne_int :: "int \<Rightarrow> pyval \<Rightarrow> bool" where
  "py_ne_int i (VInt n) = (i \<noteq> n)"
| "py_ne_int i (VBool b) = (i \<noteq> (if b then 1 else 0))"
| "py_ne_int i (VFloat (Fin r)) = (of_int i \<noteq> r)"
| "py_ne_int i (VComplex re im) = (re \<noteq> Fin (of_int i) \<or> im \<noteq> Fin 0)"
| "py_ne_int i _ = True"

text \<open>\<^verbatim>\<open>x < 0\<close>.\<close>

fun py_lt_zero :: "pyval \<Rightarrow> pyexc + bool" where
  "py_lt_zero (VInt n) = Inr (n < 0)"
| "py_lt_zero (VBool b) = Inr False"
| "py_lt_zero (VFloat f) = Inr (flt f (Fin 0))"
| "py_lt_zero _ = Inl (TypeError ''< not supported'')"

text \<open>\<^verbatim>\<open>_factorial\<close> (written \<open>u_factorial\<close>).\<close>

definition u_factorial :: "runtime \<Rightarrow> pyval \<Rightarrow> pyexc + pyval" where
  "u_factorial rt x =
     (case py_int rt x of
        Inl exc \<Rightarrow> Inl exc
      | Inr i \<Rightarrow>
          if py_ne_int i x
          then Inl (ValueError ''Factorial is only defined for non-negative integers.'')
          else
            (case py_lt_zero x of
               Inl exc \<Rightarrow> Inl exc
             | Inr negative \<Rightarrow>
                 if negative
                 then Inl (ValueError ''Factorial is only defined for non-negative integers.'')
                 else math_factorial i))"

text \<open>
  The state of the module: its two dictionaries, as association lists in the order of
  insertion.
\<close>

record module_state =
  SAFE_FUNCTIONS :: "(string \<times> pyval) list"
  SAFE_CONSTANTS :: "(string \<times> pyval) list"

text \<open>The state once the module is imported (lines 7 to 52).\<close>

definition module_init :: module_state where
  "module_init =
     \<lparr> SAFE_FUNCTIONS =
         [(''sin'', VFunc (Extern ''math.sin'')),
          (''cos'', VFunc (Extern ''math.cos'')),
          (''tan'', VFunc (Extern ''math.tan'')),
          (''asin'', VFunc (Extern ''math.asin'')),
          (''acos'', VFunc (Extern ''math.acos'')),
          (''atan'', VFunc (Extern ''math.atan'')),
          (''sinh'', VFunc (Extern ''math.sinh'')),
          (''cosh'', VFunc (Extern ''math.cosh'')),
          (''tanh'', VFunc (Extern ''math.tanh'')),
          (''log'', VFunc (Extern ''math.log'')),
          (''ln'', VFunc (Extern ''math.log'')),
          (''log10'', VFunc (Extern ''math.log10'')),
          (''sqrt'', VFunc (Extern ''math.sqrt'')),
          (''cbrt'', VFunc L_cbrt),
          (''exp'', VFunc (Extern ''math.exp'')),
          (''abs'', VFunc (Extern ''abs'')),
          (''floor'', VFunc (Extern ''math.floor'')),
          (''ceil'', VFunc (Extern ''math.ceil'')),
          (''round'', VFunc (Extern ''round'')),
          (''deg'', VFunc (Extern ''math.degrees'')),
          (''rad'', VFunc (Extern ''math.radians'')),
          (''fact'', VFunc F_factorial),
          (''factorial'', VFunc F_factorial),
          (''sin_deg'', VFunc (L_compose ''math.sin'' ''math.radians'')),
          (''cos_deg'', VFunc (L_compose ''math.cos'' ''math.radians'')),
          (''tan_deg'', VFunc (L_compose ''math.tan'' ''math.radians'')),
          (''asin_deg'', VFunc (L_compose ''math.degrees'' ''math.asin'')),
          (''acos_deg'', VFunc (L_compose ''math.degrees'' ''math.acos'')),
          (''atan_deg'', VFunc (L_compose ''math.degrees'' ''math.atan''))],
       SAFE_CONSTANTS =
         [(''pi'', VFloat (Fin (884279719003555 / 281474976710656))),
          (''e'', VFloat (Fin (6121026514868073 / 2251799813685248))),
          (''tau'', VFloat (Fin (884279719003555 / 140737488355328)))] \<rparr>"

subsection \<open>Calls\<close>

text \<open>
  The binding of the arguments of a function with the single parameter \<^verbatim>\<open>x\<close>
  (\<^verbatim>\<open>_factorial\<close> and the lambdas): one positional argument, or the keyword \<^verbatim>\<open>x\<close>.
\<close>

fun bind_x :: "pyval list \<Rightarrow> (string \<times> pyval) list \<Rightarrow> pyexc + pyval" where
  "bind_x [v] [] = Inr v"
| "bind_x [] [(k, v)] =
     (if k = ''x'' then Inr v else Inl (TypeError ''got an unexpected keyword argument''))"
| "bind_x _ _ = Inl (TypeError ''wrong number of arguments'')"

fun call_callable ::
  "runtime \<Rightarrow> callable \<Rightarrow> pyval list \<Rightarrow> (string \<times> pyval) list \<Rightarrow> pyexc + pyval" where
  "call_callable rt (Extern name) args kwargs = call_extern rt name args kwargs"
| "call_callable rt F_factorial args kwargs =
     (case bind_x args kwargs of
        Inl exc \<Rightarrow> Inl exc
      | Inr x \<Rightarrow> u_factorial rt x)"
| "call_callable rt L_cbrt args kwargs =
     (case bind_x args kwargs of
        Inl exc \<Rightarrow> Inl exc
      | Inr x \<Rightarrow>
          (case py_binop rt Div (VInt 1) (VInt 3) of
             Inl exc \<Rightarrow> Inl exc
           | Inr third \<Rightarrow> call_extern rt ''math.pow'' [x, third] []))"
| "call_callable rt (L_compose f g) args kwargs =
     (case bind_x args kwargs of
        Inl exc \<Rightarrow> Inl exc
      | Inr x \<Rightarrow>
          (case call_extern rt g [x] [] of
             Inl exc \<Rightarrow> Inl exc
           | Inr y \<Rightarrow> call_extern rt f [y] []))"

text \<open>
  The keyword arguments of a call are gathered in one dictionary from left to right
  (the instructions \<^verbatim>\<open>BUILD_MAP\<close> and \<^verbatim>\<open>DICT_MERGE\<close> of the compiled call). \<open>merge_dict d m\<close>
  adds the entries of \<open>m\<close> to \<open>d\<close> and raises on a key that \<open>d\<close> holds already;
  \<open>merge_mapping\<close> is the same for the operand of \<^verbatim>\<open>**\<close>, which must be a dictionary.
\<close>

fun merge_dict ::
  "(pyval \<times> pyval) list \<Rightarrow> (pyval \<times> pyval) list \<Rightarrow> pyexc + (pyval \<times> pyval) list" where
  "merge_dict d [] = Inr d"
| "merge_dict d ((k, v) # rest) =
     (if k \<in> set (map fst d) then Inl (TypeError ''got multiple values for keyword argument'')
      else merge_dict (d @ [(k, v)]) rest)"

fun merge_mapping ::
  "(pyval \<times> pyval) list \<Rightarrow> pyval \<Rightarrow> pyexc + (pyval \<times> pyval) list" where
  "merge_mapping d (VDict m) = merge_dict d m"
| "merge_mapping d _ = Inl (TypeError ''argument after ** must be a mapping'')"

text \<open>
  One keyword of a call, given the outcome of the evaluation of its value. The state is
  the dictionary built so far and the named keywords evaluated since the last merge.
  The value of a named keyword is evaluated and kept; at a \<^verbatim>\<open>**\<close> operand the named
  keywords kept are merged, then the operand is evaluated, then it is merged. So what a
  merge raises comes before the values of the later keywords are evaluated, and a raise
  of any step ends the call.
\<close>

fun keyword_step ::
  "(pyval \<times> pyval) list \<times> (pyval \<times> pyval) list \<Rightarrow> string option \<times> (pyexc + pyval) \<Rightarrow>
   pyexc + (pyval \<times> pyval) list \<times> (pyval \<times> pyval) list" where
  "keyword_step (d, named) (Some k, r) =
     (case r of
        Inl exc \<Rightarrow> Inl exc
      | Inr v \<Rightarrow> Inr (d, named @ [(VStr k, v)]))"
| "keyword_step (d, named) (None, r) =
     (case merge_dict d named of
        Inl exc \<Rightarrow> Inl exc
      | Inr d' \<Rightarrow>
          (case r of
             Inl exc \<Rightarrow> Inl exc
           | Inr v \<Rightarrow>
               (case merge_mapping d' v of
                  Inl exc \<Rightarrow> Inl exc
                | Inr d'' \<Rightarrow> Inr (d'', []))))"

fun keyword_steps ::
  "(pyval \<times> pyval) list \<times> (pyval \<times> pyval) list \<Rightarrow> (string option \<times> (pyexc + pyval)) list \<Rightarrow>
   pyexc + (pyval \<times> pyval) list \<times> (pyval \<times> pyval) list" where
  "keyword_steps st [] = Inr st"
| "keyword_steps st (kw # rest) =
     (case keyword_step st kw of
        Inl exc \<Rightarrow> Inl exc
      | Inr st' \<Rightarrow> keyword_steps st' rest)"

text \<open>The dictionary of the keyword arguments: the named keywords left are merged last.\<close>

definition keyword_arguments ::
  "(string option \<times> (pyexc + pyval)) list \<Rightarrow> pyexc + (pyval \<times> pyval) list" where
  "keyword_arguments results =
     (case keyword_steps ([], []) results of
        Inl exc \<Rightarrow> Inl exc
      | Inr (d, named) \<Rightarrow> merge_dict d named)"

text \<open>
  The call itself: the object called must be callable, and the keys of the keyword
  arguments must be strings.
\<close>

fun dict_keywords :: "(pyval \<times> pyval) list \<Rightarrow> pyexc + (string \<times> pyval) list" where
  "dict_keywords [] = Inr []"
| "dict_keywords ((VStr k, v) # rest) =
     (case dict_keywords rest of
        Inl exc \<Rightarrow> Inl exc
      | Inr kws \<Rightarrow> Inr ((k, v) # kws))"
| "dict_keywords _ = Inl (TypeError ''keywords must be strings'')"

definition py_call ::
  "runtime \<Rightarrow> pyval \<Rightarrow> pyval list \<Rightarrow> (pyval \<times> pyval) list \<Rightarrow> pyexc + pyval" where
  "py_call rt f args kwargs =
     (case f of
        VFunc c \<Rightarrow>
          (case dict_keywords kwargs of
             Inl exc \<Rightarrow> Inl exc
           | Inr kws \<Rightarrow> call_callable rt c args kws)
      | _ \<Rightarrow> Inl (TypeError ''object is not callable''))"

subsection \<open>Evaluation\<close>

text \<open>The value of a literal.\<close>

fun constant_of :: "constant_value \<Rightarrow> pyval" where
  "constant_of (CInt n) = VInt n"
| "constant_of (CFloat f) = VFloat f"
| "constant_of (CImag f) = VComplex (Fin 0) f"
| "constant_of (CStr s) = VStr s"
| "constant_of (CBytes s) = VBytes s"
| "constant_of (CBool b) = VBool b"
| "constant_of CNone = VNone"
| "constant_of CEllipsis = VEllipsis"

text \<open>
  The lookup of a name (the instruction \<^verbatim>\<open>LOAD_NAME\<close>): in the locals, then in the globals
  \<^verbatim>\<open>{"__builtins__": {}}\<close>, then in the builtins, which are empty.
\<close>

definition lookup_name :: "(string \<rightharpoonup> pyval) \<Rightarrow> string \<Rightarrow> pyexc + pyval" where
  "lookup_name safe_locals n =
     (case safe_locals n of
        Some v \<Rightarrow> Inr v
      | None \<Rightarrow>
          if n = ''__builtins__'' then Inr (VDict [])
          else Inl (NameError (''name '' @ n @ '' is not defined'')))"

text \<open>Results in evaluation order: the first raise wins.\<close>

fun in_order :: "(pyexc + 'a) list \<Rightarrow> pyexc + 'a list" where
  "in_order [] = Inr []"
| "in_order (Inl exc # rest) = Inl exc"
| "in_order (Inr v # rest) =
     (case in_order rest of
        Inl exc \<Rightarrow> Inl exc
      | Inr vs \<Rightarrow> Inr (v # vs))"

text \<open>
  \<^verbatim>\<open>eval(compiled, safe_globals, safe_locals)\<close> on the body of the tree: operands from
  left to right, the callee before its arguments, the arguments before the keywords,
  the keywords from left to right. The name \<^verbatim>\<open>__debug__\<close> is no lookup: \<^verbatim>\<open>compile\<close> has
  replaced it by the interpreter's constant.
\<close>

fun py_eval :: "runtime \<Rightarrow> (string \<rightharpoonup> pyval) \<Rightarrow> expr \<Rightarrow> pyexc + pyval" where
  "py_eval rt env (BinOp l op r) =
     (case py_eval rt env l of
        Inl exc \<Rightarrow> Inl exc
      | Inr a \<Rightarrow>
          (case py_eval rt env r of
             Inl exc \<Rightarrow> Inl exc
           | Inr b \<Rightarrow> py_binop rt op a b))"
| "py_eval rt env (UnaryOp op e) =
     (case py_eval rt env e of
        Inl exc \<Rightarrow> Inl exc
      | Inr v \<Rightarrow> py_unaryop rt op v)"
| "py_eval rt env (Call f args keywords) =
     (case py_eval rt env f of
        Inl exc \<Rightarrow> Inl exc
      | Inr fv \<Rightarrow>
          (case in_order (map (py_eval rt env) args) of
             Inl exc \<Rightarrow> Inl exc
           | Inr vs \<Rightarrow>
               (case keyword_arguments
                       (map (\<lambda>kw. (fst kw, py_eval rt env (snd kw))) keywords) of
                  Inl exc \<Rightarrow> Inl exc
                | Inr kwargs \<Rightarrow> py_call rt fv vs kwargs)))"
| "py_eval rt env (Constant c) = Inr (constant_of c)"
| "py_eval rt env (Name n) =
     (if n = ''__debug__'' then Inr (VBool (debug_flag rt)) else lookup_name env n)"
| "py_eval rt env (List_expr elts) = map_sum id VList (in_order (map (py_eval rt env) elts))"
| "py_eval rt env (Tuple_expr elts) = map_sum id VTuple (in_order (map (py_eval rt env) elts))"
| "py_eval rt env (Other c es) = other_expr rt c es"

subsection \<open>Compilation\<close>

text \<open>
  \<^verbatim>\<open>compile(parsed, "<expr>", "eval")\<close> raises a \<^verbatim>\<open>SyntaxError\<close> on two things that the
  parser lets through in a tree of whitelisted nodes: a keyword argument named
  \<^verbatim>\<open>__debug__\<close>, and a keyword that comes twice in one call. The keywords of a call are
  checked first, before its callee and its arguments are compiled.
\<close>

fun keyword_error :: "(string option \<times> expr) list \<Rightarrow> pyexc option" where
  "keyword_error [] = None"
| "keyword_error ((None, _) # rest) = keyword_error rest"
| "keyword_error ((Some k, _) # rest) =
     (if k = ''__debug__'' then Some (SyntaxError ''cannot assign to __debug__'')
      else if Some k \<in> set (map fst rest)
      then Some (SyntaxError (''keyword argument repeated: '' @ k))
      else keyword_error rest)"

fun first_error :: "pyexc option list \<Rightarrow> pyexc option" where
  "first_error [] = None"
| "first_error (Some exc # rest) = Some exc"
| "first_error (None # rest) = first_error rest"

fun compile_expr :: "runtime \<Rightarrow> expr \<Rightarrow> pyexc option" where
  "compile_expr rt (BinOp l op r) = first_error [compile_expr rt l, compile_expr rt r]"
| "compile_expr rt (UnaryOp op e) = compile_expr rt e"
| "compile_expr rt (Call f args keywords) =
     first_error ([keyword_error keywords, compile_expr rt f]
       @ map (compile_expr rt) args @ map (\<lambda>kw. compile_expr rt (snd kw)) keywords)"
| "compile_expr rt (Constant c) = None"
| "compile_expr rt (Name n) = None"
| "compile_expr rt (List_expr elts) = first_error (map (compile_expr rt) elts)"
| "compile_expr rt (Tuple_expr elts) = first_error (map (compile_expr rt) elts)"
| "compile_expr rt (Other c es) = other_compile rt c es"

fun py_compile :: "runtime \<Rightarrow> tree \<Rightarrow> pyexc option" where
  "py_compile rt (Expression body) = compile_expr rt body"

subsection \<open>\<^verbatim>\<open>evaluate_expression\<close>\<close>

text \<open>The \<^verbatim>\<open>except\<close> clauses of lines 103 to 110, in their order.\<close>

fun except_clauses :: "pyexc \<Rightarrow> pyexc" where
  "except_clauses (ZeroDivisionError _) = EvaluationError ''Division by zero.''"
| "except_clauses (ValueError msg) = EvaluationError msg"
| "except_clauses (EvaluationError msg) = EvaluationError msg"
| "except_clauses (OverflowError _) = EvaluationError ''Result overflow.''"
| "except_clauses _ = EvaluationError ''Invalid expression.''"

fun is_str :: "pyval \<Rightarrow> bool" where
  "is_str (VStr _) = True"
| "is_str _ = False"

text \<open>
  The function takes the state of the module and returns it with the outcome: the
  outcome is the float returned or the exception raised. \<^verbatim>\<open>safe_locals\<close> is a fresh
  dictionary, the constants overriding the functions.
\<close>

definition evaluate_expression ::
  "runtime \<Rightarrow> module_state \<Rightarrow> pyval \<Rightarrow> (pyexc + pyfloat) \<times> module_state" where
  "evaluate_expression rt g expression =
     (if \<not> py_truth expression \<or> \<not> is_str expression
      then (Inl (EvaluationError ''Expression is empty.''), g)
      else
        (case expression of
           VStr source \<Rightarrow>
             (case ast_parse rt source of
                Inl exc \<Rightarrow> (Inl exc, g)
              | Inr parsed \<Rightarrow>
                  (case u_validate_node (node_of_tree parsed) of
                     Inl exc \<Rightarrow> (Inl exc, g)
                   | Inr _ \<Rightarrow>
                       (case py_compile rt parsed of
                          Some exc \<Rightarrow> (Inl exc, g)
                        | None \<Rightarrow>
                            (let safe_locals =
                                   map_of (SAFE_FUNCTIONS g) ++ map_of (SAFE_CONSTANTS g)
                             in case parsed of
                                  Expression body \<Rightarrow>
                                    (case py_eval rt safe_locals body of
                                       Inl exc \<Rightarrow> (Inl (except_clauses exc), g)
                                     | Inr result \<Rightarrow>
                                         if is_complex result
                                         then (Inl (EvaluationError
                                                      ''Complex results are not supported.''), g)
                                         else (py_float rt result, g))))))
         | _ \<Rightarrow> (Inl (EvaluationError ''Expression is empty.''), g)))"

text \<open>The outcome of a call in the state of the freshly imported module.\<close>

definition outcome :: "runtime \<Rightarrow> pyval \<Rightarrow> pyexc + pyfloat" where
  "outcome rt expression = fst (evaluate_expression rt module_init expression)"

text \<open>A sequence of calls, the state of the module handed from each call to the next.\<close>

fun calls :: "runtime \<Rightarrow> module_state \<Rightarrow> pyval list \<Rightarrow> (pyexc + pyfloat) list \<times> module_state" where
  "calls rt g [] = ([], g)"
| "calls rt g (expression # rest) =
     (case evaluate_expression rt g expression of
        (result, g') \<Rightarrow>
          (case calls rt g' rest of
             (results, g'') \<Rightarrow> (result # results, g'')))"

subsection \<open>A runtime for the examples\<close>

text \<open>
  The trees that CPython's parser returns for the strings used as examples below
  (\<^verbatim>\<open>ast.dump(ast.parse(s, mode="eval"))\<close>), and what it raises on \<^verbatim>\<open>"1 +"\<close>.
\<close>

definition example_trees :: "(string \<times> (pyexc + tree)) list" where
  "example_trees =
     [(''2 + 3 * 4'',
         Inr (Expression (BinOp (Constant (CInt 2)) Add
                (BinOp (Constant (CInt 3)) Mult (Constant (CInt 4)))))),
      (''2 ** 10'', Inr (Expression (BinOp (Constant (CInt 2)) Pow_op (Constant (CInt 10))))),
      (''2 ** 53 + 1'',
         Inr (Expression (BinOp (BinOp (Constant (CInt 2)) Pow_op (Constant (CInt 53))) Add
                (Constant (CInt 1))))),
      (''1 / 4 + 0.5'',
         Inr (Expression (BinOp (BinOp (Constant (CInt 1)) Div (Constant (CInt 4))) Add
                (Constant (CFloat (Fin (1 / 2))))))),
      (''fact(5)'', Inr (Expression (Call (Name ''fact'') [Constant (CInt 5)] []))),
      (''fact(5.5)'', Inr (Expression (Call (Name ''fact'') [Constant (CFloat (Fin (11 / 2)))] []))),
      (''fact(-1)'', Inr (Expression (Call (Name ''fact'') [UnaryOp USub (Constant (CInt 1))] []))),
      (''fact(1e999)'', Inr (Expression (Call (Name ''fact'') [Constant (CFloat PInf)] []))),
      (''sqrt(16)'', Inr (Expression (Call (Name ''sqrt'') [Constant (CInt 16)] []))),
      (''sqrt(-1)'', Inr (Expression (Call (Name ''sqrt'') [UnaryOp USub (Constant (CInt 1))] []))),
      (''cbrt(-8)'', Inr (Expression (Call (Name ''cbrt'') [UnaryOp USub (Constant (CInt 8))] []))),
      (''cbrt(10 ** 400)'',
         Inr (Expression (Call (Name ''cbrt'')
                [BinOp (Constant (CInt 10)) Pow_op (Constant (CInt 400))] []))),
      (''10 ** 400 / 0.0'',
         Inr (Expression (BinOp (BinOp (Constant (CInt 10)) Pow_op (Constant (CInt 400))) Div
                (Constant (CFloat (Fin 0)))))),
      (''sqrt(x=1/0, **pi)'',
         Inr (Expression (Call (Name ''sqrt'') []
                [(Some ''x'', BinOp (Constant (CInt 1)) Div (Constant (CInt 0))),
                 (None, Name ''pi'')]))),
      (''sqrt(**pi, x=1/0)'',
         Inr (Expression (Call (Name ''sqrt'') []
                [(None, Name ''pi''),
                 (Some ''x'', BinOp (Constant (CInt 1)) Div (Constant (CInt 0)))]))),
      (''__debug__'', Inr (Expression (Name ''__debug__''))),
      (''1/0'', Inr (Expression (BinOp (Constant (CInt 1)) Div (Constant (CInt 0))))),
      (''1j'', Inr (Expression (Constant (CImag (Fin 1))))),
      (''True'', Inr (Expression (Constant (CBool True)))),
      (''False'', Inr (Expression (Constant (CBool False)))),
      ([CHR 0x27, CHR ''a'', CHR 0x27], Inr (Expression (Constant (CStr ''a'')))),
      (''1 < 2'', Inr (Expression (Other Compare [Constant (CInt 1), Constant (CInt 2)]))),
      (''1 +'', Inl (SyntaxError ''invalid syntax''))]"

text \<open>
  A runtime that agrees with CPython on the strings above and on \<^verbatim>\<open>float('a')\<close>, run
  without \<^verbatim>\<open>-O\<close>. Its \<^verbatim>\<open>pow\<close> is the exact power of a base that is not negative. On
  every other input its fields answer with a marker; it is used at the listed inputs
  only.
\<close>

definition example_runtime :: runtime where
  "example_runtime =
     \<lparr> ast_parse = (\<lambda>s. case map_of example_trees s of
                            Some r \<Rightarrow> r
                          | None \<Rightarrow> Inl (OtherException ''not listed'')),
       libm_pow = (\<lambda>x y. case (x, y) of
                            (Fin a, Fin b) \<Rightarrow> if 0 \<le> a then Fin (a powr b) else NaN
                          | _ \<Rightarrow> NaN),
       float_rem = (\<lambda>x y. NaN),
       float_floor_div = (\<lambda>x y. NaN),
       other_binop = (\<lambda>op a b. Inl (OtherException ''not listed'')),
       other_unaryop = (\<lambda>op v. Inl (OtherException ''not listed'')),
       other_expr = (\<lambda>c es. Inl (OtherException ''not listed'')),
       other_compile = (\<lambda>c es. Some (OtherException ''not listed'')),
       extern_call = (\<lambda>name args kwargs. Inl (OtherException ''not listed'')),
       float_of_str = (\<lambda>s. if s = ''a''
                            then Inl (ValueError (''could not convert string to float: ''
                                              @ [CHR 0x27, CHR ''a'', CHR 0x27]))
                            else Inl (OtherException ''not listed'')),
       int_of_str = (\<lambda>s. Inl (OtherException ''not listed'')),
       debug_flag = True \<rparr>"

subsection \<open>Divisions by zero\<close>

text \<open>
  \<open>zero_division op a b\<close>: the operation is a division or a modulo of numbers by zero.
  On two integers the divisor is \<open>0\<close>. With a float, both operands convert to a double
  and the divisor is \<open>0.0\<close>. With a complex number the operator is \<^verbatim>\<open>/\<close> (there is no
  \<^verbatim>\<open>//\<close> and no \<^verbatim>\<open>%\<close> on complex numbers), both operands convert and the divisor has both
  parts zero.
\<close>

definition zero_division :: "operator \<Rightarrow> pyval \<Rightarrow> pyval \<Rightarrow> bool" where
  "zero_division op a b =
     (if int_like a \<noteq> None \<and> int_like b \<noteq> None
      then op \<in> {Div, FloorDiv, Mod} \<and> int_like b = Some 0
      else if is_real a \<and> is_real b
      then op \<in> {Div, FloorDiv, Mod} \<and> \<not> isl (as_double a) \<and> as_double b = Inr (Fin 0)
      else op = Div \<and> (is_real a \<or> is_complex a) \<and> (is_real b \<or> is_complex b)
           \<and> \<not> isl (as_complex a) \<and> as_complex b = Inr (Fin 0, Fin 0))"

text \<open>
  \<open>performs_zero_division rt env e\<close>: the evaluation of \<open>e\<close> reaches such a division,
  every sub-expression that is evaluated before it having returned, and every merge of
  keyword arguments that comes before it having succeeded.
\<close>

inductive performs_zero_division :: "runtime \<Rightarrow> (string \<rightharpoonup> pyval) \<Rightarrow> expr \<Rightarrow> bool"
  for rt :: runtime and env :: "string \<rightharpoonup> pyval" where
  pzd_here:
    "py_eval rt env l = Inr a \<Longrightarrow> py_eval rt env r = Inr b \<Longrightarrow> zero_division op a b \<Longrightarrow>
     performs_zero_division rt env (BinOp l op r)"
| pzd_left:
    "performs_zero_division rt env l \<Longrightarrow> performs_zero_division rt env (BinOp l op r)"
| pzd_right:
    "py_eval rt env l = Inr a \<Longrightarrow> performs_zero_division rt env r \<Longrightarrow>
     performs_zero_division rt env (BinOp l op r)"
| pzd_operand:
    "performs_zero_division rt env e \<Longrightarrow> performs_zero_division rt env (UnaryOp op e)"
| pzd_callee:
    "performs_zero_division rt env f \<Longrightarrow> performs_zero_division rt env (Call f args keywords)"
| pzd_argument:
    "py_eval rt env f = Inr fv \<Longrightarrow> in_order (map (py_eval rt env) before) = Inr vs \<Longrightarrow>
     performs_zero_division rt env e \<Longrightarrow>
     performs_zero_division rt env (Call f (before @ e # after) keywords)"
| pzd_keyword:
    "py_eval rt env f = Inr fv \<Longrightarrow> in_order (map (py_eval rt env) args) = Inr vs \<Longrightarrow>
     keyword_steps ([], []) (map (\<lambda>kw. (fst kw, py_eval rt env (snd kw))) before) = Inr st \<Longrightarrow>
     performs_zero_division rt env e \<Longrightarrow>
     performs_zero_division rt env (Call f args (before @ (Some k, e) # after))"
| pzd_unpacked:
    "py_eval rt env f = Inr fv \<Longrightarrow> in_order (map (py_eval rt env) args) = Inr vs \<Longrightarrow>
     keyword_steps ([], []) (map (\<lambda>kw. (fst kw, py_eval rt env (snd kw))) before)
       = Inr (d, named) \<Longrightarrow>
     merge_dict d named = Inr d' \<Longrightarrow>
     performs_zero_division rt env e \<Longrightarrow>
     performs_zero_division rt env (Call f args (before @ (None, e) # after))"
| pzd_list:
    "in_order (map (py_eval rt env) before) = Inr vs \<Longrightarrow> performs_zero_division rt env e \<Longrightarrow>
     performs_zero_division rt env (List_expr (before @ e # after))"
| pzd_tuple:
    "in_order (map (py_eval rt env) before) = Inr vs \<Longrightarrow> performs_zero_division rt env e \<Longrightarrow>
     performs_zero_division rt env (Tuple_expr (before @ e # after))"

subsection \<open>The accuracy of the power function\<close>

text \<open>
  \<open>pow_within rt a b eps\<close>: for the base \<open>a\<close> and the exponent \<open>b\<close> the C library's \<^verbatim>\<open>pow\<close>
  returns a finite number within the relative error \<open>eps\<close> of the real power \<open>a powr b\<close>
  (which is \<open>0\<close> for \<open>a = 0\<close>).
\<close>

definition pow_within :: "runtime \<Rightarrow> real \<Rightarrow> real \<Rightarrow> real \<Rightarrow> bool" where
  "pow_within rt a b eps =
     (\<exists>r. libm_pow rt (Fin a) (Fin b) = Fin r \<and> \<bar>r - a powr b\<bar> \<le> eps * a powr b)"

subsection \<open>The classes of a tree\<close>

text \<open>
  The classes of the nodes of a tree in the order in which \<^verbatim>\<open>_validate_node\<close> visits
  them, and the first of them that is not in \<^verbatim>\<open>ALLOWED_NODES\<close>.
\<close>

fun classes :: "ast \<Rightarrow> string list" where
  "classes (AST cls children) = cls # concat (map classes children)"

definition first_disallowed :: "ast \<Rightarrow> string option" where
  "first_disallowed node = find (\<lambda>cls. cls \<notin> set ALLOWED_NODES) (classes node)"

subsection \<open>Standard evaluation\<close>









section \<open>Properties\<close>

subsection \<open>Auxiliary facts\<close>

lemma parse_example:
  "map_of example_trees s = Some r \<Longrightarrow> ast_parse example_runtime s = r"
  by (simp add: example_runtime_def)

lemmas run_defs =
  evaluate_expression_def outcome_def example_trees_def ALLOWED_NODES_def module_init_def
  lookup_name_def keyword_arguments_def py_call_def py_binop_def arithmetic_op_def is_real_def call_extern_def
  u_factorial_def math_factorial_def LONG_MAX_def

lemma round_half_even_of_int: "round_half_even (of_int k) = k"
  by (simp add: round_half_even_def)

lemma pow2_nonpos: "e \<le> 0 \<Longrightarrow> pow2 e = 1 / 2 ^ nat (- e)"
  by (cases "e = 0") (simp_all add: pow2_def)

text \<open>An integer below \<open>2 ^ 53\<close> in magnitude is a binary64 value.\<close>

lemma round_double_of_int:
  assumes "\<bar>n\<bar> < 2 ^ 53"
  shows "round_double (of_int n) = Fin (of_int n)"
proof (cases "n = 0")
  case True
  then show ?thesis by (simp add: round_double_def)
next
  case False
  define a where "a = \<bar>n\<bar>"
  have a: "1 \<le> a" "a < 2 ^ 53" using False assms by (auto simp: a_def)
  have abs_eq: "\<bar>real_of_int n\<bar> = of_int a" by (simp add: a_def)
  have "bitlen a \<le> 53" using a by (simp add: bitlen_le_iff_power)
  moreover have "ilog2 (of_int a) = bitlen a - 1" using a by (simp add: ilog2_def)
  ultimately have le0: "max (ilog2 \<bar>real_of_int n\<bar> - 52) (- 1074) \<le> 0"
    by (simp add: abs_eq)
  define e where "e = max (ilog2 \<bar>real_of_int n\<bar> - 52) (- 1074)"
  have p: "pow2 e = 1 / 2 ^ nat (- e)" using le0 by (simp add: e_def pow2_nonpos)
  have q: "real_of_int n / pow2 e = of_int (n * 2 ^ nat (- e))" by (simp add: p)
  have r: "of_int (round_half_even (real_of_int n / pow2 e)) * pow2 e = real_of_int n"
    unfolding q round_half_even_of_int by (simp add: p)
  have small: "\<not> (2 :: real) ^ 1024 \<le> \<bar>real_of_int n\<bar>"
  proof -
    have "real_of_int a < 2 ^ 53" using a by (metis of_int_less_numeral_power_cancel_iff)
    also have "\<dots> < (2 :: real) ^ 1024" by simp
    finally show ?thesis by (simp add: abs_eq)
  qed
  show ?thesis
    using False small by (simp add: round_double_def Let_def r [unfolded e_def])
qed

lemma float_of_int_exact: "\<bar>n\<bar> < 2 ^ 53 \<Longrightarrow> float_of_int n = Inr (Fin (of_int n))"
  by (simp add: float_of_int_def round_double_of_int)

text \<open>An integer of \<open>2 ^ 1024\<close> or more is beyond the binary64 range.\<close>

lemma round_half_even_ge_floor: "\<lfloor>x\<rfloor> \<le> round_half_even x"
  by (simp add: round_half_even_def Let_def)

lemma round_double_overflow:
  assumes "2 ^ 1024 \<le> n"
  shows "round_double (of_int n) = PInf"
proof -
  have n1: "1 \<le> n" using assms by (smt (verit) one_le_power)
  define L where "L = bitlen n - 1"
  have pos: "0 < n" using n1 by simp
  have lo: "2 ^ nat L \<le> n" and hi: "n < 2 ^ nat (L + 1)"
    using bitlen_bounds [OF pos] by (simp_all add: L_def)
  have "\<not> bitlen n \<le> 1024"
    using assms pos by (simp add: bitlen_le_iff_power)
  then have L: "1024 \<le> L" by (simp add: L_def)
  have il: "ilog2 (real_of_int n) = L" using n1 by (simp add: ilog2_def L_def)
  define e where "e = L - 52"
  have e: "max (ilog2 (real_of_int n) - 52) (- 1074) = e" using L by (simp add: il e_def)
  have e0: "0 \<le> e" using L by (simp add: e_def)
  have p: "pow2 e = 2 ^ nat e" using e0 by (simp add: pow2_def)
  have split: "(2 :: real) ^ nat L = 2 ^ 52 * 2 ^ nat e"
  proof -
    have "nat L = 52 + nat e" using L by (simp add: e_def)
    then show ?thesis by (simp add: power_add)
  qed
  have "(2 :: real) ^ nat L \<le> of_int n" using lo by (metis of_int_le_iff of_int_numeral of_int_power)
  then have q: "(2 :: real) ^ 52 \<le> of_int n / 2 ^ nat e"
    by (simp add: split pos_le_divide_eq)
  have "(2 :: int) ^ 52 \<le> \<lfloor>real_of_int n / 2 ^ nat e\<rfloor>"
    using q by (simp add: le_floor_iff)
  then have r: "2 ^ 52 \<le> round_half_even (real_of_int n / 2 ^ nat e)"
    using round_half_even_ge_floor [of "real_of_int n / 2 ^ nat e"] by linarith
  then have "(2 :: real) ^ 52 \<le> of_int (round_half_even (real_of_int n / 2 ^ nat e))"
    by (metis of_int_le_iff of_int_numeral of_int_power)
  then have "(2 :: real) ^ 52 * 2 ^ nat e
               \<le> of_int (round_half_even (real_of_int n / 2 ^ nat e)) * 2 ^ nat e"
    by (simp add: mult_right_mono)
  moreover have "(2 :: real) ^ 1024 \<le> 2 ^ nat L"
    by (rule power_increasing) (use L in auto)
  ultimately have big: "(2 :: real) ^ 1024
               \<le> of_int (round_half_even (real_of_int n / 2 ^ nat e)) * 2 ^ nat e"
    using split by linarith
  then have big': "(2 :: real) ^ 1024
               \<le> \<bar>of_int (round_half_even (real_of_int n / 2 ^ nat e)) * 2 ^ nat e\<bar>"
    by linarith
  show ?thesis
    using pos big' by (simp add: round_double_def Let_def e p del: abs_mult)
qed

lemma float_of_int_overflow:
  "2 ^ 1024 \<le> n \<Longrightarrow> float_of_int n = Inl (OverflowError ''int too large to convert to float'')"
  by (simp add: float_of_int_def round_double_overflow)

lemma evaluate_expression_state: "snd (evaluate_expression rt g x) = g"
  by (simp add: evaluate_expression_def split: pyval.splits sum.splits tree.splits option.splits)

subsection \<open>The whitelist\<close>

lemma find_append_case:
  "find P (xs @ ys) = (case find P xs of None \<Rightarrow> find P ys | Some x \<Rightarrow> Some x)"
  by (induction xs) auto

lemma validate_find:
  "u_validate_node node =
     (case find (\<lambda>cls. cls \<notin> set ALLOWED_NODES) (classes node) of
        None \<Rightarrow> Inr ()
      | Some cls \<Rightarrow> Inl (EvaluationError (''Unsupported expression element: '' @ cls)))"
  "validate_children nodes =
     (case find (\<lambda>cls. cls \<notin> set ALLOWED_NODES) (concat (map classes nodes)) of
        None \<Rightarrow> Inr ()
      | Some cls \<Rightarrow> Inl (EvaluationError (''Unsupported expression element: '' @ cls)))"
proof (induction node and nodes rule: u_validate_node_validate_children.induct)
  case (1 cls children)
  then show ?case by simp
next
  case 2
  show ?case by simp
next
  case (3 child rest)
  show ?case
  proof (cases "u_validate_node child")
    case (Inl exc)
    with 3(1) show ?thesis by (auto simp: find_append_case split: option.splits)
  next
    case (Inr u)
    with 3 show ?thesis by (auto simp: find_append_case split: option.splits)
  qed
qed

lemma u_validate_node_first_disallowed:
  "u_validate_node node =
     (case first_disallowed node of
        None \<Rightarrow> Inr ()
      | Some cls \<Rightarrow> Inl (EvaluationError (''Unsupported expression element: '' @ cls)))"
  by (simp add: first_disallowed_def validate_find(1))

lemma lookup_name_registry:
  assumes "lookup_name (map_of fs ++ map_of cs) n = Inr v"
  shows "(n, v) \<in> set fs \<union> set cs \<or> (n = ''__builtins__'' \<and> v = VDict [])"
proof (cases "(map_of fs ++ map_of cs) n")
  case None
  with assms show ?thesis by (simp add: lookup_name_def split: if_splits)
next
  case (Some w)
  with assms have "w = v" by (simp add: lookup_name_def)
  with Some have "map_of cs n = Some v \<or> map_of fs n = Some v"
    by (auto simp: map_add_Some_iff)
  then show ?thesis by (auto dest: map_of_SomeD)
qed

lemma py_eval_name:
  assumes "py_eval rt (map_of fs ++ map_of cs) (Name n) = Inr v"
  shows "(n, v) \<in> set fs \<union> set cs \<or> (n = ''__builtins__'' \<and> v = VDict [])
         \<or> (n = ''__debug__'' \<and> v = VBool (debug_flag rt))"
proof (cases "n = ''__debug__''")
  case True
  with assms show ?thesis by simp
next
  case False
  with assms have "lookup_name (map_of fs ++ map_of cs) n = Inr v" by simp
  then show ?thesis using lookup_name_registry by blast
qed

lemma py_call_returns:
  assumes "py_call rt fv vs kwargs = Inr v"
  shows "\<exists>c kws. fv = VFunc c \<and> dict_keywords kwargs = Inr kws \<and> call_callable rt c vs kws = Inr v"
  using assms by (auto simp: py_call_def split: pyval.splits sum.splits)

lemma call_of_name:
  assumes "py_eval rt (map_of fs ++ map_of cs) (Call (Name n) args keywords) = Inr v"
  shows "\<exists>c vs kws. (n, VFunc c) \<in> set fs \<union> set cs \<and> call_callable rt c vs kws = Inr v"
proof -
  from assms obtain fv vs kwargs where
    f: "py_eval rt (map_of fs ++ map_of cs) (Name n) = Inr fv"
    and c: "py_call rt fv vs kwargs = Inr v"
    by (auto simp del: py_eval.simps(5) simp add: py_eval.simps(3) split: sum.splits)
  from py_call_returns [OF c] obtain c kws where
    fv: "fv = VFunc c" and r: "call_callable rt c vs kws = Inr v" by blast
  from py_eval_name [OF f] fv have "(n, VFunc c) \<in> set fs \<union> set cs" by auto
  with r show ?thesis by blast
qed

text \<open>
  Claim C1, as amended. For every expression whose parsed tree has a node of a class
  outside \<^verbatim>\<open>ALLOWED_NODES\<close>, \<^verbatim>\<open>evaluate_expression\<close> raises
  \<^verbatim>\<open>EvaluationError("Unsupported expression element: <class>")\<close> for the first such node
  in the order of the walk; the equation holds whatever the runtime would evaluate, so
  nothing is evaluated. Every expression class other than \<^verbatim>\<open>BinOp\<close>, \<^verbatim>\<open>UnaryOp\<close>,
  \<^verbatim>\<open>Call\<close>, \<^verbatim>\<open>Constant\<close>, \<^verbatim>\<open>Name\<close>, \<^verbatim>\<open>List\<close> and \<^verbatim>\<open>Tuple\<close> is outside the whitelist:
  attribute and subscript access, comprehensions, lambdas, comparisons, boolean
  operators, conditional expressions. In the evaluation of a tree, a name evaluates to
  an entry of the registry, or \<^verbatim>\<open>__builtins__\<close> to the empty dictionary, or \<^verbatim>\<open>__debug__\<close> to
  the interpreter's boolean constant, and to nothing else; and a call of a name that
  returns is a call of a function of the registry.
\<close>

theorem C1_disallowed_node_rejected:
  assumes "ast_parse rt s = Inr tree" and "s \<noteq> []"
    and "cls \<in> set (classes (node_of_tree tree))" and "cls \<notin> set ALLOWED_NODES"
  shows "(\<exists>c. first_disallowed (node_of_tree tree) = Some c
            \<and> c \<in> set (classes (node_of_tree tree)) \<and> c \<notin> set ALLOWED_NODES
            \<and> evaluate_expression rt g (VStr s)
                = (Inl (EvaluationError (''Unsupported expression element: '' @ c)), g))
    \<and> (\<forall>k. expr_class_name k \<notin> set ALLOWED_NODES)
    \<and> (\<forall>n v. py_eval rt (map_of (SAFE_FUNCTIONS g) ++ map_of (SAFE_CONSTANTS g)) (Name n) = Inr v
          \<longrightarrow> (n, v) \<in> set (SAFE_FUNCTIONS g) \<union> set (SAFE_CONSTANTS g)
              \<or> (n = ''__builtins__'' \<and> v = VDict [])
              \<or> (n = ''__debug__'' \<and> v = VBool (debug_flag rt)))
    \<and> (\<forall>n args keywords v.
          py_eval rt (map_of (SAFE_FUNCTIONS g) ++ map_of (SAFE_CONSTANTS g))
            (Call (Name n) args keywords) = Inr v
          \<longrightarrow> (\<exists>c vs kws. (n, VFunc c) \<in> set (SAFE_FUNCTIONS g) \<union> set (SAFE_CONSTANTS g)
                 \<and> call_callable rt c vs kws = Inr v))"
proof (intro conjI allI impI)
  from assms(3,4) obtain c where c: "first_disallowed (node_of_tree tree) = Some c"
    unfolding first_disallowed_def by (cases "find (\<lambda>cls. cls \<notin> set ALLOWED_NODES)
      (classes (node_of_tree tree))") (auto simp: find_None_iff)
  then have mem: "c \<in> set (classes (node_of_tree tree))" "c \<notin> set ALLOWED_NODES"
    unfolding first_disallowed_def by (auto simp: find_Some_iff)
  have "u_validate_node (node_of_tree tree)
          = Inl (EvaluationError (''Unsupported expression element: '' @ c))"
    by (simp add: u_validate_node_first_disallowed c)
  with assms(1,2) have "evaluate_expression rt g (VStr s)
          = (Inl (EvaluationError (''Unsupported expression element: '' @ c)), g)"
    by (simp add: evaluate_expression_def)
  with c mem show "\<exists>c. first_disallowed (node_of_tree tree) = Some c
            \<and> c \<in> set (classes (node_of_tree tree)) \<and> c \<notin> set ALLOWED_NODES
            \<and> evaluate_expression rt g (VStr s)
                = (Inl (EvaluationError (''Unsupported expression element: '' @ c)), g)"
    by blast
next
  fix k
  show "expr_class_name k \<notin> set ALLOWED_NODES"
    by (cases k) (simp_all add: ALLOWED_NODES_def)
next
  fix n v
  assume "py_eval rt (map_of (SAFE_FUNCTIONS g) ++ map_of (SAFE_CONSTANTS g)) (Name n) = Inr v"
  then show "(n, v) \<in> set (SAFE_FUNCTIONS g) \<union> set (SAFE_CONSTANTS g)
              \<or> (n = ''__builtins__'' \<and> v = VDict [])
              \<or> (n = ''__debug__'' \<and> v = VBool (debug_flag rt))"
    by (rule py_eval_name)
next
  fix n args kwds v
  assume "py_eval rt (map_of (SAFE_FUNCTIONS g) ++ map_of (SAFE_CONSTANTS g))
            (Call (Name n) args kwds) = Inr v"
  then show "\<exists>c vs kws. (n, VFunc c) \<in> set (SAFE_FUNCTIONS g) \<union> set (SAFE_CONSTANTS g)
                 \<and> call_callable rt c vs kws = Inr v"
    by (rule call_of_name)
qed

theorem C1_disallowed_node_rejected_witness:
  "evaluate_expression example_runtime module_init (VStr ''1 < 2'')
     = (Inl (EvaluationError ''Unsupported expression element: Compare''), module_init)"
proof -
  have p: "ast_parse example_runtime ''1 < 2''
             = Inr (Expression (Other Compare [Constant (CInt 1), Constant (CInt 2)]))"
    by (simp add: parse_example example_trees_def)
  have m: "''Compare'' \<in> set (classes (node_of_tree
             (Expression (Other Compare [Constant (CInt 1), Constant (CInt 2)]))))"
    by simp
  have n: "''Compare'' \<notin> set ALLOWED_NODES" by (simp add: ALLOWED_NODES_def)
  have f: "first_disallowed (node_of_tree
             (Expression (Other Compare [Constant (CInt 1), Constant (CInt 2)]))) = Some ''Compare''"
    by (simp add: first_disallowed_def ALLOWED_NODES_def)
  from C1_disallowed_node_rejected [OF p _ m n, of module_init] f show ?thesis by auto
qed

text \<open>So \<^verbatim>\<open>"__debug__"\<close> passes the walk and evaluates to \<open>1.0\<close>.\<close>

lemma debug_name_evaluates:
  "outcome example_runtime (VStr ''__debug__'') = Inr (Fin 1)"
  by (simp add: run_defs parse_example example_runtime_def)

text \<open>
  The claim as stated counts a string literal among the rejected constructs. A string
  literal is a \<^verbatim>\<open>Constant\<close> node, which the whitelist holds: the tree of \<^verbatim>\<open>"'a'"\<close> passes
  the walk and is evaluated, and the call ends in the \<^verbatim>\<open>ValueError\<close> of \<^verbatim>\<open>float('a')\<close> on
  line 114, which is neither an \<^verbatim>\<open>EvaluationError\<close> nor a parse failure.
\<close>

theorem C1_counterexample:
  "u_validate_node (node_of_tree (Expression (Constant (CStr ''a'')))) = Inr ()
   \<and> outcome example_runtime (VStr [CHR 0x27, CHR ''a'', CHR 0x27])
       = Inl (ValueError (''could not convert string to float: '' @ [CHR 0x27, CHR ''a'', CHR 0x27]))"
  by (simp add: run_defs parse_example example_runtime_def)

subsection \<open>Failures that are not translated\<close>

text \<open>
  Claim C2 says that every failure of \<^verbatim>\<open>evaluate_expression\<close> is an
  \<^verbatim>\<open>EvaluationError\<close>, a syntax error in particular. The \<^verbatim>\<open>try\<close> statement holds the call
  of \<^verbatim>\<open>eval\<close> only. What \<^verbatim>\<open>ast.parse\<close> raises on line 96, what \<^verbatim>\<open>compile\<close> raises on line
  98 and what \<^verbatim>\<open>float\<close> raises on line 114 leave \<^verbatim>\<open>evaluate_expression\<close> as they are: so
  \<^verbatim>\<open>"1 +"\<close> ends in a \<^verbatim>\<open>SyntaxError\<close>.
\<close>

theorem C2_failures_escape:
  "(ast_parse rt s = Inl exc \<and> s \<noteq> [] \<longrightarrow>
      evaluate_expression rt g (VStr s) = (Inl exc, g))
   \<and> (ast_parse rt s = Inr parsed \<and> s \<noteq> []
        \<and> u_validate_node (node_of_tree parsed) = Inr ()
        \<and> py_compile rt parsed = Some exc \<longrightarrow>
      evaluate_expression rt g (VStr s) = (Inl exc, g))
   \<and> (ast_parse rt s = Inr (Expression body) \<and> s \<noteq> []
        \<and> u_validate_node (node_of_tree (Expression body)) = Inr ()
        \<and> compile_expr rt body = None
        \<and> py_eval rt (map_of (SAFE_FUNCTIONS g) ++ map_of (SAFE_CONSTANTS g)) body = Inr result
        \<and> \<not> is_complex result \<and> py_float rt result = Inl exc \<longrightarrow>
      evaluate_expression rt g (VStr s) = (Inl exc, g))"
  by (auto simp: evaluate_expression_def)

theorem C2_failures_escape_witness:
  "evaluate_expression example_runtime module_init (VStr ''1 +'')
     = (Inl (SyntaxError ''invalid syntax''), module_init)"
proof -
  have p: "ast_parse example_runtime ''1 +'' = Inl (SyntaxError ''invalid syntax'')"
    by (simp add: parse_example example_trees_def)
  show ?thesis
    using C2_failures_escape [of example_runtime "''1 +''" "SyntaxError ''invalid syntax''"
        module_init] p
    by simp
qed

subsection \<open>Arithmetic\<close>













subsection \<open>Factorial\<close>

lemma u_factorial_int:
  "u_factorial rt (VInt n) =
     (if n < 0 then Inl (ValueError ''Factorial is only defined for non-negative integers.'')
      else math_factorial n)"
  by (simp add: u_factorial_def)

lemma trunc_of_int: "trunc (of_int n) = n"
  by (simp add: trunc_def)

lemma u_factorial_float:
  "u_factorial rt (VFloat (Fin r)) =
     (if r < 0 \<or> \<not> is_integer r
      then Inl (ValueError ''Factorial is only defined for non-negative integers.'')
      else math_factorial \<lfloor>r\<rfloor>)"
proof (cases "0 \<le> r")
  case True
  then show ?thesis by (auto simp: u_factorial_def trunc_def is_integer_def)
next
  case False
  then have "r < of_int \<lceil>r\<rceil> \<or> r = of_int \<lceil>r\<rceil>" by linarith
  with False show ?thesis
    by (auto simp: u_factorial_def trunc_def is_integer_def)
qed

text \<open>
  \<^verbatim>\<open>fact\<close> and \<^verbatim>\<open>factorial\<close> are the same function \<^verbatim>\<open>_factorial\<close>. For every integer or
  float argument that is a non-negative integer not above \<^verbatim>\<open>LONG_MAX\<close> it returns the
  factorial, computed exactly on integers; for every integer or finite float argument
  that is negative or fractional it raises
  \<^verbatim>\<open>ValueError("Factorial is only defined for non-negative integers.")\<close>. So
  \<^verbatim>\<open>"fact(5)"\<close> returns \<open>120.0\<close>, and \<^verbatim>\<open>"fact(5.5)"\<close> and \<^verbatim>\<open>"fact(-1)"\<close> fail with that
  message.
\<close>

lemma u_factorial_finite:
  assumes "ast_parse rt ''fact(5)'' = Inr (Expression (Call (Name ''fact'') [Constant (CInt 5)] []))"
    and "ast_parse rt ''fact(5.5)''
           = Inr (Expression (Call (Name ''fact'') [Constant (CFloat (Fin (11 / 2)))] []))"
    and "ast_parse rt ''fact(-1)''
           = Inr (Expression (Call (Name ''fact'') [UnaryOp USub (Constant (CInt 1))] []))"
  shows "map_of (SAFE_FUNCTIONS module_init) ''fact'' = Some (VFunc F_factorial)
    \<and> map_of (SAFE_FUNCTIONS module_init) ''factorial'' = Some (VFunc F_factorial)
    \<and> (\<forall>n. 0 \<le> n \<and> n \<le> LONG_MAX \<longrightarrow>
          u_factorial rt (VInt n) = Inr (VInt (fact (nat n)))
          \<and> u_factorial rt (VFloat (Fin (of_int n))) = Inr (VInt (fact (nat n))))
    \<and> (\<forall>n. n < 0 \<longrightarrow>
          u_factorial rt (VInt n)
            = Inl (ValueError ''Factorial is only defined for non-negative integers.''))
    \<and> (\<forall>r. r < 0 \<or> \<not> is_integer r \<longrightarrow>
          u_factorial rt (VFloat (Fin r))
            = Inl (ValueError ''Factorial is only defined for non-negative integers.''))
    \<and> outcome rt (VStr ''fact(5)'') = Inr (Fin 120)
    \<and> outcome rt (VStr ''fact(5.5)'')
         = Inl (EvaluationError ''Factorial is only defined for non-negative integers.'')
    \<and> outcome rt (VStr ''fact(-1)'')
         = Inl (EvaluationError ''Factorial is only defined for non-negative integers.'')"
proof (intro conjI allI impI)
  show "map_of (SAFE_FUNCTIONS module_init) ''fact'' = Some (VFunc F_factorial)"
    by (simp add: module_init_def)
  show "map_of (SAFE_FUNCTIONS module_init) ''factorial'' = Some (VFunc F_factorial)"
    by (simp add: module_init_def)
next
  fix n :: int
  assume "0 \<le> n \<and> n \<le> LONG_MAX"
  then show "u_factorial rt (VInt n) = Inr (VInt (fact (nat n)))"
    and "u_factorial rt (VFloat (Fin (of_int n))) = Inr (VInt (fact (nat n)))"
    by (simp_all add: u_factorial_int u_factorial_float math_factorial_def is_integer_def)
next
  fix n :: int
  assume "n < 0"
  then show "u_factorial rt (VInt n)
               = Inl (ValueError ''Factorial is only defined for non-negative integers.'')"
    by (simp add: u_factorial_int)
next
  fix r :: real
  assume "r < 0 \<or> \<not> is_integer r"
  then show "u_factorial rt (VFloat (Fin r))
               = Inl (ValueError ''Factorial is only defined for non-negative integers.'')"
    by (simp add: u_factorial_float)
next
  have "fact (5 :: nat) = (120 :: int)" by (simp add: fact_numeral)
  then show "outcome rt (VStr ''fact(5)'') = Inr (Fin 120)"
    using assms(1) by (simp add: run_defs float_of_int_exact)
next
  show "outcome rt (VStr ''fact(5.5)'')
          = Inl (EvaluationError ''Factorial is only defined for non-negative integers.'')"
    using assms(2) by (simp add: run_defs trunc_def)
next
  show "outcome rt (VStr ''fact(-1)'')
          = Inl (EvaluationError ''Factorial is only defined for non-negative integers.'')"
    using assms(3) by (simp add: run_defs)
qed

lemma u_factorial_finite_examples:
  "u_factorial example_runtime (VInt 5) = Inr (VInt 120)
   \<and> u_factorial example_runtime (VFloat (Fin 5)) = Inr (VInt 120)
   \<and> u_factorial example_runtime (VInt (- 1))
       = Inl (ValueError ''Factorial is only defined for non-negative integers.'')
   \<and> u_factorial example_runtime (VFloat (Fin (11 / 2)))
       = Inl (ValueError ''Factorial is only defined for non-negative integers.'')
   \<and> outcome example_runtime (VStr ''fact(5)'') = Inr (Fin 120)
   \<and> outcome example_runtime (VStr ''fact(5.5)'')
       = Inl (EvaluationError ''Factorial is only defined for non-negative integers.'')
   \<and> outcome example_runtime (VStr ''fact(-1)'')
       = Inl (EvaluationError ''Factorial is only defined for non-negative integers.'')"
proof -
  have a: "ast_parse example_runtime ''fact(5)''
             = Inr (Expression (Call (Name ''fact'') [Constant (CInt 5)] []))"
    by (simp add: parse_example example_trees_def)
  have b: "ast_parse example_runtime ''fact(5.5)''
             = Inr (Expression (Call (Name ''fact'') [Constant (CFloat (Fin (11 / 2)))] []))"
    by (simp add: parse_example example_trees_def)
  have c: "ast_parse example_runtime ''fact(-1)''
             = Inr (Expression (Call (Name ''fact'') [UnaryOp USub (Constant (CInt 1))] []))"
    by (simp add: parse_example example_trees_def)
  note th = u_factorial_finite [OF a b c]
  have f: "fact (nat 5) = (120 :: int)" by (simp add: fact_numeral)
  have i: "\<not> is_integer (11 / 2)" by (simp add: is_integer_def)
  from th have 1: "u_factorial example_runtime (VInt 5) = Inr (VInt (fact (nat 5)))
      \<and> u_factorial example_runtime (VFloat (Fin (of_int 5))) = Inr (VInt (fact (nat 5)))"
    by (elim conjE allE [where x = "5 :: int"]) (simp add: LONG_MAX_def)
  from th have 2: "u_factorial example_runtime (VInt (- 1))
       = Inl (ValueError ''Factorial is only defined for non-negative integers.'')"
    by (elim conjE allE [where x = "- 1 :: int"]) simp
  from th i have 3: "u_factorial example_runtime (VFloat (Fin (11 / 2)))
       = Inl (ValueError ''Factorial is only defined for non-negative integers.'')"
    by (elim conjE allE [where x = "11 / 2 :: real"]) simp
  from th 1 2 3 f show ?thesis by simp
qed

text \<open>
  Claim C4 promises the message
  \<^verbatim>\<open>"Factorial is only defined for non-negative integers."\<close> for every argument that is
  not a non-negative integer, and the test \<^verbatim>\<open>int(x) != x or x < 0\<close> of line 33 is there to
  give it. The code misses the infinite floats: \<^verbatim>\<open>int(x)\<close>, the first thing the test
  evaluates, raises an \<^verbatim>\<open>OverflowError\<close> on an infinity, so the comparison is never made
  and the message never raised. For both infinities and in every runtime \<^verbatim>\<open>_factorial\<close>
  raises that \<^verbatim>\<open>OverflowError\<close>, and \<^verbatim>\<open>"fact(1e999)"\<close>, whose literal denotes the positive
  infinity, ends in \<^verbatim>\<open>"Result overflow."\<close>.
\<close>

theorem C4_factorial_of_infinity:
  "(x = VFloat PInf \<or> x = VFloat NInf \<longrightarrow>
      u_factorial rt x = Inl (OverflowError ''cannot convert float infinity to integer''))
   \<and> (ast_parse rt ''fact(1e999)''
         = Inr (Expression (Call (Name ''fact'') [Constant (CFloat PInf)] [])) \<longrightarrow>
      outcome rt (VStr ''fact(1e999)'') = Inl (EvaluationError ''Result overflow.''))"
  by (auto simp: run_defs)

theorem C4_factorial_of_infinity_witness:
  "u_factorial example_runtime (VFloat PInf)
     = Inl (OverflowError ''cannot convert float infinity to integer'')
   \<and> outcome example_runtime (VStr ''fact(1e999)'') = Inl (EvaluationError ''Result overflow.'')"
proof -
  have p: "ast_parse example_runtime ''fact(1e999)''
             = Inr (Expression (Call (Name ''fact'') [Constant (CFloat PInf)] []))"
    by (simp add: parse_example example_trees_def)
  show ?thesis
    using C4_factorial_of_infinity [of "VFloat PInf" example_runtime] p by simp
qed

subsection \<open>Complex results and square roots\<close>

lemma sqrt_16: "sqrt 16 = 4"
  using real_sqrt_abs [of 4] by simp

lemma round_double_4: "round_double 4 = Fin 4"
  using round_double_of_int [of 4] by simp

text \<open>
  Claim C5. If the value computed for an expression (one that passes the walk and
  compiles) is a complex number,
  \<^verbatim>\<open>evaluate_expression\<close> raises \<^verbatim>\<open>EvaluationError("Complex results are not supported.")\<close>;
  \<^verbatim>\<open>"sqrt(-1)"\<close> fails with the domain error of \<^verbatim>\<open>math.sqrt\<close> and returns no complex
  number; \<^verbatim>\<open>"sqrt(16)"\<close> returns \<open>4.0\<close>.
\<close>

theorem C5_complex_and_sqrt:
  assumes "ast_parse rt ''sqrt(16)'' = Inr (Expression (Call (Name ''sqrt'') [Constant (CInt 16)] []))"
    and "ast_parse rt ''sqrt(-1)''
           = Inr (Expression (Call (Name ''sqrt'') [UnaryOp USub (Constant (CInt 1))] []))"
  shows "(\<forall>s body (g :: module_state) re im.
            ast_parse rt s = Inr (Expression body) \<and> s \<noteq> []
            \<and> u_validate_node (node_of_tree (Expression body)) = Inr ()
            \<and> compile_expr rt body = None
            \<and> py_eval rt (map_of (SAFE_FUNCTIONS g) ++ map_of (SAFE_CONSTANTS g)) body
                = Inr (VComplex re im)
            \<longrightarrow> evaluate_expression rt g (VStr s)
                = (Inl (EvaluationError ''Complex results are not supported.''), g))
    \<and> outcome rt (VStr ''sqrt(-1)'') = Inl (EvaluationError ''math domain error'')
    \<and> outcome rt (VStr ''sqrt(16)'') = Inr (Fin 4)"
proof (intro conjI allI impI)
  fix s body and g :: module_state and re im
  assume "ast_parse rt s = Inr (Expression body) \<and> s \<noteq> []
            \<and> u_validate_node (node_of_tree (Expression body)) = Inr ()
            \<and> compile_expr rt body = None
            \<and> py_eval rt (map_of (SAFE_FUNCTIONS g) ++ map_of (SAFE_CONSTANTS g)) body
                = Inr (VComplex re im)"
  then show "evaluate_expression rt g (VStr s)
                = (Inl (EvaluationError ''Complex results are not supported.''), g)"
    by (simp add: evaluate_expression_def)
next
  show "outcome rt (VStr ''sqrt(-1)'') = Inl (EvaluationError ''math domain error'')"
    using assms(2) by (simp add: run_defs float_of_int_exact)
next
  show "outcome rt (VStr ''sqrt(16)'') = Inr (Fin 4)"
    using assms(1) by (simp add: run_defs float_of_int_exact sqrt_16 round_double_4)
qed

theorem C5_complex_and_sqrt_witness:
  "evaluate_expression example_runtime module_init (VStr ''1j'')
      = (Inl (EvaluationError ''Complex results are not supported.''), module_init)
   \<and> outcome example_runtime (VStr ''sqrt(-1)'') = Inl (EvaluationError ''math domain error'')
   \<and> outcome example_runtime (VStr ''sqrt(16)'') = Inr (Fin 4)"
proof -
  have a: "ast_parse example_runtime ''sqrt(16)''
             = Inr (Expression (Call (Name ''sqrt'') [Constant (CInt 16)] []))"
    by (simp add: parse_example example_trees_def)
  have b: "ast_parse example_runtime ''sqrt(-1)''
             = Inr (Expression (Call (Name ''sqrt'') [UnaryOp USub (Constant (CInt 1))] []))"
    by (simp add: parse_example example_trees_def)
  have c: "ast_parse example_runtime ''1j'' = Inr (Expression (Constant (CImag (Fin 1))))"
    by (simp add: parse_example example_trees_def)
  note th = C5_complex_and_sqrt [OF a b]
  have "evaluate_expression example_runtime module_init (VStr ''1j'')
      = (Inl (EvaluationError ''Complex results are not supported.''), module_init)"
    by (rule th [THEN conjunct1, rule_format, of "''1j''" "Constant (CImag (Fin 1))"
                  module_init "Fin 0" "Fin 1"])
       (simp add: c ALLOWED_NODES_def)
  with th show ?thesis by simp
qed

subsection \<open>Division by zero\<close>








text \<open>
  A \<^verbatim>\<open>**\<close> operand is merged at its place: in \<^verbatim>\<open>"sqrt(**pi, x=1/0)"\<close> the merge of the
  float raises a \<^verbatim>\<open>TypeError\<close> and \<^verbatim>\<open>1/0\<close> is never evaluated.
\<close>

lemma unpacking_comes_first:
  "outcome example_runtime (VStr ''sqrt(**pi, x=1/0)'') = Inl (EvaluationError ''Invalid expression.'')"
  by (simp add: run_defs parse_example example_runtime_def)



subsection \<open>Empty and non-string input\<close>

text \<open>
  Claim C7. For every input that is the empty string or is not a string,
  \<^verbatim>\<open>evaluate_expression\<close> raises \<^verbatim>\<open>EvaluationError("Expression is empty.")\<close>. The
  equation holds for every runtime, so the parser has no part in it, and the state of
  the module is returned as it was.
\<close>

theorem C7_empty_or_not_string:
  "expression = VStr [] \<or> \<not> is_str expression \<Longrightarrow>
   evaluate_expression rt g expression = (Inl (EvaluationError ''Expression is empty.''), g)"
  by (auto simp: evaluate_expression_def)

theorem C7_empty_or_not_string_witness:
  "evaluate_expression example_runtime module_init (VStr []) =
     (Inl (EvaluationError ''Expression is empty.''), module_init)
   \<and> evaluate_expression example_runtime module_init (VInt 7) =
     (Inl (EvaluationError ''Expression is empty.''), module_init)"
  using C7_empty_or_not_string [of "VStr []" example_runtime module_init]
    C7_empty_or_not_string [of "VInt 7" example_runtime module_init]
  by simp

subsection \<open>Calls do not depend on one another\<close>

text \<open>
  Claim C8. \<^verbatim>\<open>evaluate_expression\<close> is deterministic and stateless: in any sequence of
  calls, each call has the outcome that the same call has alone in the initial state,
  and the state of the module after the sequence is the initial state. So two calls
  with the same expression have the same outcome, whatever is called in between.
\<close>

theorem C8_calls_independent:
  "calls rt g xs = (map (\<lambda>x. fst (evaluate_expression rt g x)) xs, g)"
proof (induction xs)
  case Nil
  show ?case by simp
next
  case (Cons x xs)
  obtain r where r: "evaluate_expression rt g x = (r, g)"
    using evaluate_expression_state [of rt g x] by (cases "evaluate_expression rt g x") simp
  show ?case using Cons r by simp
qed

theorem C8_calls_independent_witness:
  "calls example_runtime module_init [VStr ''1/0'', VStr ''True'', VStr ''1/0''] =
     ([Inl (EvaluationError ''Division by zero.''), Inr (Fin 1),
       Inl (EvaluationError ''Division by zero.'')], module_init)"
  using C8_calls_independent [of example_runtime module_init
          "[VStr ''1/0'', VStr ''True'', VStr ''1/0'']"]
  by (simp add: run_defs parse_example)

subsection \<open>Cube roots\<close>

lemma one_third: "round_double (1 / 3) = Fin (6004799503160661 / 18014398509481984)"
  by code_simp

lemma one_third_fractional: "\<not> is_integer (6004799503160661 / 18014398509481984)"
  by (simp add: is_integer_def)

lemma cbrt_as_pow:
  assumes "as_double x = Inr d"
  shows "call_callable rt L_cbrt [x] []
           = map_sum id VFloat (math_pow rt d (Fin (6004799503160661 / 18014398509481984)))"
proof -
  have "py_binop rt Div (VInt 1) (VInt 3)
          = Inr (VFloat (Fin (6004799503160661 / 18014398509481984)))"
    using one_third by (simp add: py_binop_def arithmetic_op_def)
  with assms show ?thesis by (simp add: call_extern_def)
qed

lemma pow_within_example:
  "0 \<le> a \<Longrightarrow> pow_within example_runtime a b 0"
  by (simp add: pow_within_def example_runtime_def)

text \<open>
  Claim C9, as amended. The registry function \<^verbatim>\<open>cbrt\<close> is \<^verbatim>\<open>math.pow(x, 1 / 3)\<close>, where
  \<^verbatim>\<open>1 / 3\<close> is the double nearest to one third, \<open>6004799503160661 / 2 ^ 54\<close>. For every
  argument that converts to a double \<open>d\<close>: when \<open>d\<close> is finite and not negative the call
  returns what the C library's \<^verbatim>\<open>pow\<close> returns for \<open>d\<close> and that exponent, so a float
  within the relative error \<open>eps\<close> of \<open>d\<close> to that power if the library's \<^verbatim>\<open>pow\<close> is that
  accurate there; when \<open>d\<close> is finite and negative the call raises the domain error, the
  exponent being fractional; when \<open>d\<close> is the negative infinity the result is the
  positive infinity. So no negative argument yields the real cube root.
\<close>

theorem C9_cbrt:
  assumes "as_double x = Inr d"
  shows "map_of (SAFE_FUNCTIONS module_init) ''cbrt'' = Some (VFunc L_cbrt)
    \<and> call_callable rt L_cbrt [x] []
        = map_sum id VFloat (math_pow rt d (Fin (6004799503160661 / 18014398509481984)))
    \<and> (\<forall>a eps. d = Fin a \<and> 0 \<le> a
            \<and> pow_within rt a (6004799503160661 / 18014398509481984) eps \<longrightarrow>
          (\<exists>r. call_callable rt L_cbrt [x] [] = Inr (VFloat (Fin r))
             \<and> \<bar>r - a powr (6004799503160661 / 18014398509481984)\<bar>
                 \<le> eps * a powr (6004799503160661 / 18014398509481984)))
    \<and> (\<forall>a. d = Fin a \<and> a < 0 \<longrightarrow>
          call_callable rt L_cbrt [x] [] = Inl (ValueError ''math domain error''))
    \<and> (d = NInf \<longrightarrow> call_callable rt L_cbrt [x] [] = Inr (VFloat PInf))
    \<and> (d = PInf \<longrightarrow> call_callable rt L_cbrt [x] [] = Inr (VFloat PInf))"
proof (intro conjI allI impI)
  show "map_of (SAFE_FUNCTIONS module_init) ''cbrt'' = Some (VFunc L_cbrt)"
    by (simp add: module_init_def)
  show "call_callable rt L_cbrt [x] []
          = map_sum id VFloat (math_pow rt d (Fin (6004799503160661 / 18014398509481984)))"
    by (rule cbrt_as_pow [OF assms])
next
  fix a eps
  assume h: "d = Fin a \<and> 0 \<le> a \<and> pow_within rt a (6004799503160661 / 18014398509481984) eps"
  then obtain r where r: "libm_pow rt (Fin a) (Fin (6004799503160661 / 18014398509481984)) = Fin r"
    and b: "\<bar>r - a powr (6004799503160661 / 18014398509481984)\<bar>
              \<le> eps * a powr (6004799503160661 / 18014398509481984)"
    unfolding pow_within_def by blast
  have "call_callable rt L_cbrt [x] [] = Inr (VFloat (Fin r))"
    unfolding cbrt_as_pow [OF assms] using h r by (simp add: math_pow_def c_pow_def)
  with b show "\<exists>r. call_callable rt L_cbrt [x] [] = Inr (VFloat (Fin r))
             \<and> \<bar>r - a powr (6004799503160661 / 18014398509481984)\<bar>
                 \<le> eps * a powr (6004799503160661 / 18014398509481984)"
    by blast
next
  fix a
  assume "d = Fin a \<and> a < 0"
  then show "call_callable rt L_cbrt [x] [] = Inl (ValueError ''math domain error'')"
    unfolding cbrt_as_pow [OF assms]
    by (simp add: math_pow_def c_pow_def one_third_fractional)
next
  assume "d = NInf"
  then show "call_callable rt L_cbrt [x] [] = Inr (VFloat PInf)"
    unfolding cbrt_as_pow [OF assms]
    by (simp add: math_pow_def one_third_fractional)
next
  assume "d = PInf"
  then show "call_callable rt L_cbrt [x] [] = Inr (VFloat PInf)"
    unfolding cbrt_as_pow [OF assms]
    by (simp add: math_pow_def one_third_fractional)
qed

theorem C9_cbrt_witness:
  "call_callable example_runtime L_cbrt [VInt 8] []
     = Inr (VFloat (Fin (8 powr (6004799503160661 / 18014398509481984))))
   \<and> call_callable example_runtime L_cbrt [VInt (- 8)] [] = Inl (ValueError ''math domain error'')
   \<and> call_callable example_runtime L_cbrt [VFloat NInf] [] = Inr (VFloat PInf)"
proof -
  have p: "as_double (VInt 8) = Inr (Fin 8)"
    using float_of_int_exact [of 8] by simp
  have a: "as_double (VInt (- 8)) = Inr (Fin (- 8))"
    using float_of_int_exact [of "- 8"] by simp
  have b: "as_double (VFloat NInf) = Inr NInf" by simp
  note pos = C9_cbrt [OF p, of example_runtime, THEN conjunct2, THEN conjunct2, THEN conjunct1,
                rule_format, of 8 0]
  note neg = C9_cbrt [OF a, of example_runtime, THEN conjunct2, THEN conjunct2, THEN conjunct2,
                THEN conjunct1, rule_format, of "- 8"]
  note inf = C9_cbrt [OF b, of example_runtime, THEN conjunct2, THEN conjunct2, THEN conjunct2,
                THEN conjunct2, THEN conjunct1, rule_format]
  have "\<exists>r. call_callable example_runtime L_cbrt [VInt 8] [] = Inr (VFloat (Fin r))
             \<and> \<bar>r - 8 powr (6004799503160661 / 18014398509481984)\<bar>
                 \<le> 0 * 8 powr (6004799503160661 / 18014398509481984)"
    by (rule pos) (simp add: pow_within_example)
  then have "call_callable example_runtime L_cbrt [VInt 8] []
     = Inr (VFloat (Fin (8 powr (6004799503160661 / 18014398509481984))))"
    by auto
  moreover have "call_callable example_runtime L_cbrt [VInt (- 8)] [] = Inl (ValueError ''math domain error'')"
    by (rule neg) simp
  moreover have "call_callable example_runtime L_cbrt [VFloat NInf] [] = Inr (VFloat PInf)"
    by (rule inf) simp
  ultimately show ?thesis by simp
qed

text \<open>
  The claim as stated promises the power for every argument that is not negative. An
  integer beyond the range of the doubles, such as \<open>10 ^ 400\<close>, does not convert:
  \<^verbatim>\<open>math.pow\<close> raises an \<^verbatim>\<open>OverflowError\<close> and \<^verbatim>\<open>"cbrt(10 ** 400)"\<close> ends in
  \<^verbatim>\<open>"Result overflow."\<close>, where the cube root is about \<open>2.15e133\<close>.
\<close>

theorem C9_counterexample:
  "call_callable example_runtime L_cbrt [VInt (10 ^ 400)] []
     = Inl (OverflowError ''int too large to convert to float'')
   \<and> outcome example_runtime (VStr ''cbrt(10 ** 400)'') = Inl (EvaluationError ''Result overflow.'')"
proof -
  have b: "(2 :: int) ^ 1024 \<le> 10 ^ 400" by simp
  have o: "float_of_int (10 ^ 400) = Inl (OverflowError ''int too large to convert to float'')"
    by (rule float_of_int_overflow [OF b])
  have t: "py_binop example_runtime Div (VInt 1) (VInt 3)
          = Inr (VFloat (Fin (6004799503160661 / 18014398509481984)))"
    using one_third by (simp add: py_binop_def arithmetic_op_def)
  have c: "call_callable example_runtime L_cbrt [VInt (10 ^ 400)] []
     = Inl (OverflowError ''int too large to convert to float'')"
    using o by (simp add: t call_extern_def)
  have p: "ast_parse example_runtime ''cbrt(10 ** 400)''
             = Inr (Expression (Call (Name ''cbrt'')
                [BinOp (Constant (CInt 10)) Pow_op (Constant (CInt 400))] []))"
    by (simp add: parse_example example_trees_def)
  have e: "py_eval example_runtime
             (map_of (SAFE_FUNCTIONS module_init) ++ map_of (SAFE_CONSTANTS module_init))
             (Call (Name ''cbrt'') [BinOp (Constant (CInt 10)) Pow_op (Constant (CInt 400))] [])
           = Inl (OverflowError ''int too large to convert to float'')"
    using c by (simp add: module_init_def lookup_name_def keyword_arguments_def py_call_def
                  py_binop_def arithmetic_op_def)
  have "outcome example_runtime (VStr ''cbrt(10 ** 400)'') = Inl (EvaluationError ''Result overflow.'')"
    unfolding outcome_def evaluate_expression_def
    by (simp add: p e ALLOWED_NODES_def del: py_eval.simps)
  with c show ?thesis by simp
qed


subsection \<open>Boolean literals\<close>

text \<open>
  Claim C10. The validator accepts the literals \<^verbatim>\<open>True\<close> and \<^verbatim>\<open>False\<close>, which are
  \<^verbatim>\<open>Constant\<close> nodes, and \<^verbatim>\<open>evaluate_expression\<close> returns \<open>1.0\<close> for \<^verbatim>\<open>"True"\<close> and
  \<open>0.0\<close> for \<^verbatim>\<open>"False"\<close>.
\<close>

theorem C10_boolean_literals:
  assumes "ast_parse rt ''True'' = Inr (Expression (Constant (CBool True)))"
    and "ast_parse rt ''False'' = Inr (Expression (Constant (CBool False)))"
  shows "u_validate_node (node_of_tree (Expression (Constant (CBool b)))) = Inr ()
    \<and> evaluate_expression rt g (VStr ''True'') = (Inr (Fin 1), g)
    \<and> evaluate_expression rt g (VStr ''False'') = (Inr (Fin 0), g)"
  using assms by (simp add: evaluate_expression_def ALLOWED_NODES_def)

theorem C10_boolean_literals_witness:
  "u_validate_node (node_of_tree (Expression (Constant (CBool True)))) = Inr ()
    \<and> evaluate_expression example_runtime module_init (VStr ''True'') = (Inr (Fin 1), module_init)
    \<and> evaluate_expression example_runtime module_init (VStr ''False'') = (Inr (Fin 0), module_init)"
proof -
  have t: "ast_parse example_runtime ''True'' = Inr (Expression (Constant (CBool True)))"
    by (simp add: parse_example example_trees_def)
  have f: "ast_parse example_runtime ''False'' = Inr (Expression (Constant (CBool False)))"
    by (simp add: parse_example example_trees_def)
  show ?thesis using C10_boolean_literals [OF t f, of True module_init] by simp
qed

end
